theory Spec2Isabelle
  imports Main "HOL-Library.Word"
begin

unbundle bit_operations_syntax

section \<open>HLK-LD2450 configuration channel (ld2450_config.c)\<close>

subsection \<open>Bytes, error codes and the frame constants\<close>

type_synonym byte = "8 word"

text \<open>\<open>ld2450_cmd_t\<close>: a 16-bit command word (sent little-endian in bytes 6 and 7).\<close>

type_synonym ld2450_cmd_t = "16 word"

text \<open>The \<open>esp_err_t\<close> values that ld2450_config.c returns.\<close>

datatype esp_err_t =
    ESP_OK
  | ESP_FAIL
  | ESP_ERR_INVALID_ARG
  | ESP_ERR_INVALID_STATE
  | ESP_ERR_INVALID_SIZE
  | ESP_ERR_TIMEOUT
  | ESP_ERR_INVALID_RESPONSE

text \<open>
  Modelled from the spec: the header ld2450_private.h, which declares the three magic
  byte strings, is not part of the sources at hand. Section 6 of the specification gives them:
  configuration frames start with FD FC FB FA and end with 04 03 02 01, telemetry
  frames start with AA FF 03 00.
\<close>

definition LD2450_CONFIG_FRAME_HEADER :: "byte list" where
  "LD2450_CONFIG_FRAME_HEADER = [0xFD, 0xFC, 0xFB, 0xFA]"

definition LD2450_CONFIG_FRAME_FOOTER :: "byte list" where
  "LD2450_CONFIG_FRAME_FOOTER = [0x04, 0x03, 0x02, 0x01]"

definition LD2450_DATA_FRAME_HEADER :: "byte list" where
  "LD2450_DATA_FRAME_HEADER = [0xAA, 0xFF, 0x03, 0x00]"

subsection \<open>Reading a buffer of known length\<close>

text \<open>
  A C read outside the buffer is undefined behaviour. The model makes it a value:
  \<open>None\<close>. \<open>rd buf i\<close> is \<open>buf[i]\<close>, and \<open>memcmp_eq buf off pat\<close> is
  \<open>memcmp(&buf[off], pat, n) == 0\<close> for the \<open>n\<close> bytes of \<open>pat\<close>.
\<close>

definition rd :: "byte list \<Rightarrow> nat \<Rightarrow> byte option" where
  "rd buf i = (if i < length buf then Some (buf ! i) else None)"

definition memcmp_eq :: "byte list \<Rightarrow> nat \<Rightarrow> byte list \<Rightarrow> bool option" where
  "memcmp_eq buf off pat =
     (if off + length pat \<le> length buf
      then Some (take (length pat) (drop off buf) = pat)
      else None)"

subsection \<open>ld2450_validate_ack\<close>

text \<open>The four \<open>ESP_LOGE\<close> lines of the function, one per failed check.\<close>

datatype ack_log =
    ACK_too_short nat
  | Invalid_ACK_header_footer
  | Invalid_command_echo byte byte
  | Command_failed_status byte byte

text \<open>
  The C operator \<open>||\<close> is short-circuit: its right operand is evaluated, and its
  bytes are read, only when the left one is false.
\<close>

definition sc_or :: "bool option \<Rightarrow> bool option \<Rightarrow> bool option" where
  "sc_or a b = (case a of None \<Rightarrow> None | Some True \<Rightarrow> Some True | Some False \<Rightarrow> b)"

text \<open>\<open>buf[i] != v\<close>: the byte is promoted before the comparison.\<close>

definition byte_ne :: "byte option \<Rightarrow> 16 word \<Rightarrow> bool option" where
  "byte_ne r v = map_option (\<lambda>b. (ucast b :: 16 word) \<noteq> v) r"

text \<open>
  \<open>ld2450_validate_ack(ack, len, cmd)\<close>, with \<open>len\<close> the length of the list. The
  result is the returned code and the lines logged, or \<open>None\<close> when a read leaves the
  buffer. The subtraction \<open>len - 4\<close> comes after the guard \<open>len < 10\<close>, so it does
  not wrap.
\<close>

definition ld2450_validate_ack ::
  "byte list \<Rightarrow> ld2450_cmd_t \<Rightarrow> (esp_err_t \<times> ack_log list) option" where
  "ld2450_validate_ack ack cmd =
     (let len = length ack in
      if len < 10 then Some (ESP_ERR_INVALID_SIZE, [ACK_too_short len])
      else
        case sc_or (map_option Not (memcmp_eq ack 0 LD2450_CONFIG_FRAME_HEADER))
                   (map_option Not (memcmp_eq ack (len - 4) LD2450_CONFIG_FRAME_FOOTER)) of
          None \<Rightarrow> None
        | Some True \<Rightarrow> Some (ESP_ERR_INVALID_RESPONSE, [Invalid_ACK_header_footer])
        | Some False \<Rightarrow>
            (case sc_or (byte_ne (rd ack 6) (cmd AND 0xFF)) (byte_ne (rd ack 7) 0x01) of
               None \<Rightarrow> None
             | Some True \<Rightarrow>
                 (case (rd ack 6, rd ack 7) of
                    (Some a6, Some a7) \<Rightarrow>
                      Some (ESP_ERR_INVALID_RESPONSE, [Invalid_command_echo a6 a7])
                  | _ \<Rightarrow> None)
             | Some False \<Rightarrow>
                 (case sc_or (byte_ne (rd ack 8) 0x00) (byte_ne (rd ack 9) 0x00) of
                    None \<Rightarrow> None
                  | Some True \<Rightarrow>
                      (case (rd ack 8, rd ack 9) of
                         (Some a8, Some a9) \<Rightarrow>
                           Some (ESP_ERR_INVALID_RESPONSE, [Command_failed_status a8 a9])
                       | _ \<Rightarrow> None)
                  | Some False \<Rightarrow> Some (ESP_OK, []))))"


subsection \<open>Constants of the headers\<close>

text \<open>
  The headers ld2450.h and ld2450_private.h are not part of the sources at hand, and the
  specification leaves the buffer sizes, the timeouts and the command codes open. They
  are parameters of the model, under the names the source uses. \<open>pdMS_TO_TICKS\<close> is the
  FreeRTOS conversion from milliseconds to ticks, \<open>VERSION_STRING_SIZE\<close> stands for
  \<open>sizeof(version->version_string)\<close>.
\<close>

record ld2450_consts =
  LD2450_ACK_BUFFER_SIZE :: nat
  LD2450_ERROR_BUFFER_SIZE :: nat
  LD2450_CONFIG_TIMEOUT_MS :: nat
  LD2450_RESTART_TIMEOUT_MS :: nat
  VERSION_STRING_SIZE :: nat
  pdMS_TO_TICKS :: "nat \<Rightarrow> nat"
  LD2450_CMD_ENABLE_CONFIG :: ld2450_cmd_t
  LD2450_CMD_END_CONFIG :: ld2450_cmd_t
  LD2450_CMD_SINGLE_TARGET :: ld2450_cmd_t
  LD2450_CMD_MULTI_TARGET :: ld2450_cmd_t
  LD2450_CMD_QUERY_TARGET_MODE :: ld2450_cmd_t
  LD2450_CMD_READ_FW_VERSION :: ld2450_cmd_t
  LD2450_CMD_SET_BAUD_RATE :: ld2450_cmd_t
  LD2450_CMD_RESTORE_FACTORY :: ld2450_cmd_t
  LD2450_CMD_RESTART_MODULE :: ld2450_cmd_t
  LD2450_CMD_SET_BLUETOOTH :: ld2450_cmd_t
  LD2450_CMD_GET_MAC_ADDRESS :: ld2450_cmd_t
  LD2450_CMD_SET_REGION :: ld2450_cmd_t
  LD2450_CMD_QUERY_REGION :: ld2450_cmd_t
  LD2450_BAUD_9600 :: int
  LD2450_BAUD_460800 :: int

subsection \<open>The driver instance and its environment\<close>

text \<open>
  What the driver does to the outside, in the order it does it: \<open>uart_flush\<close>, the loop
  that drains the event queue, \<open>uart_write_bytes\<close> with the frame written, and
  \<open>vTaskDelay\<close> with its ticks.
\<close>

datatype effect =
    Uart_flush
  | Queue_drain
  | Uart_write "byte list"
  | Task_delay nat

text \<open>
  What one pass of the waiting loop finds: \<open>xQueueReceive\<close> timed out after its 10 ms,
  or it delivered an event that is not \<open>UART_DATA\<close>, or it delivered \<open>UART_DATA\<close>
  with \<open>event.size\<close> and the bytes the receive buffer holds for the
  \<open>uart_read_bytes\<close> that follows (no bytes: the read returned 0 or -1).
\<close>

datatype uart_event =
    Queue_timeout
  | UART_OTHER
  | UART_DATA nat "byte list"

text \<open>
  The environment of one transaction: whether \<open>xSemaphoreTake\<close> gets the mutex in
  time, what \<open>uart_write_bytes\<close> returns (\<open>None\<close>: the length asked for), and the
  passes of the waiting loop, each with the value of
  \<open>xTaskGetTickCount() - start_time\<close> at the loop's head. When the list of passes ends,
  nothing more arrives and the clock runs to the deadline.
\<close>

record txn_env =
  lock_granted :: bool
  bytes_sent :: "int option"
  polls :: "(nat \<times> uart_event) list"

text \<open>What \<open>uart_write_bytes\<close> returns when asked to send \<open>n\<close> bytes.\<close>

definition uart_write_bytes :: "txn_env \<Rightarrow> nat \<Rightarrow> int" where
  "uart_write_bytes env n = (case bytes_sent env of None \<Rightarrow> int n | Some r \<Rightarrow> r)"

definition quiet_env :: txn_env where
  "quiet_env = \<lparr>lock_granted = True, bytes_sent = None, polls = []\<rparr>"

text \<open>
  \<open>ld2450_state_t\<close>: the fields of the singleton instance that ld2450_config.c uses,
  \<open>initialized\<close> standing for \<open>instance && instance->initialized\<close> and
  \<open>mutex_taken\<close> for the mutex being held by the caller. The last two fields are the
  environment: the effects so far, and the environments of the transactions to come
  (a \<open>quiet_env\<close> once the list is used up).
\<close>

record ld2450_state_t =
  initialized :: bool
  in_config_mode :: bool
  mutex_taken :: bool
  ack_buffer :: "byte list"
  error_buffer :: "byte list"
  error_buffer_len :: nat
  effects :: "effect list"
  script :: "txn_env list"

definition next_env :: "ld2450_state_t \<Rightarrow> txn_env" where
  "next_env s = (case script s of [] \<Rightarrow> quiet_env | e # _ \<Rightarrow> e)"

text \<open>\<open>memcpy(&buf[off], src, n)\<close> for the \<open>n\<close> bytes of \<open>src\<close>.\<close>

definition write_at :: "byte list \<Rightarrow> nat \<Rightarrow> byte list \<Rightarrow> byte list" where
  "write_at b off src = take off b @ src @ drop (off + length src) b"

text \<open>
  What \<open>ld2450_get_last_error_data\<close> copies out with a buffer large enough: the first
  \<open>error_buffer_len\<close> bytes of \<open>error_buffer\<close>.
\<close>

definition last_error_data :: "ld2450_state_t \<Rightarrow> byte list" where
  "last_error_data s = take (error_buffer_len s) (error_buffer s)"

subsection \<open>build_command_packet\<close>

text \<open>
  Header, length of command word and value (little-endian), command word
  (little-endian), value, footer. The result is the packet; its length is the size the C
  function returns.
\<close>

definition build_command_packet :: "ld2450_cmd_t \<Rightarrow> byte list \<Rightarrow> byte list" where
  "build_command_packet cmd val =
     LD2450_CONFIG_FRAME_HEADER
     @ [word_of_nat (length val + 2), word_of_nat (drop_bit 8 (length val + 2))]
     @ [ucast cmd, ucast (drop_bit 8 cmd)]
     @ val
     @ LD2450_CONFIG_FRAME_FOOTER"

subsection \<open>ld2450_send_command\<close>

text \<open>The locals of the waiting loop; \<open>buf\<close> is \<open>instance->ack_buffer\<close>.\<close>

record ack_wait =
  buf :: "byte list"
  idx :: nat
  found_header :: bool
  found_footer :: bool
  found_cmd_echo :: bool

text \<open>The locals when the loop starts.\<close>

definition wait0 :: "byte list \<Rightarrow> ack_wait" where
  "wait0 b = \<lparr>buf = b, idx = 0, found_header = False, found_footer = False,
              found_cmd_echo = False\<rparr>"

text \<open>
  The three searches that follow a read: "Look for config header", "Look for command
  echo", "Look for footer". The last one ends the loop (\<open>break\<close>) with
  \<open>found_footer\<close> set, which nothing else sets.
\<close>

definition look_for_header :: "ack_wait \<Rightarrow> ack_wait" where
  "look_for_header w =
     (if \<not> found_header w \<and> idx w \<ge> 4 \<and> take 4 (buf w) = LD2450_CONFIG_FRAME_HEADER
      then w\<lparr>found_header := True\<rparr> else w)"

definition look_for_echo :: "ld2450_cmd_t \<Rightarrow> ack_wait \<Rightarrow> ack_wait" where
  "look_for_echo cmd w =
     (if found_header w \<and> \<not> found_cmd_echo w \<and> idx w \<ge> 8
         \<and> (ucast (buf w ! 6) :: 16 word) = (cmd AND 0xFF) \<and> buf w ! 7 = 0x01
      then w\<lparr>found_cmd_echo := True\<rparr> else w)"

definition look_for_footer :: "ack_wait \<Rightarrow> ack_wait" where
  "look_for_footer w =
     (if found_header w \<and> idx w \<ge> 12
         \<and> take 4 (drop (idx w - 4) (buf w)) = LD2450_CONFIG_FRAME_FOOTER
      then w\<lparr>found_footer := True\<rparr> else w)"

text \<open>
  The body of the loop for a \<open>UART_DATA\<close> event: the read into \<open>&ack_buffer[idx]\<close>,
  the test for a telemetry header, whose \<open>continue\<close> leaves with \<open>idx = 0\<close>, and
  the three searches.
\<close>

definition on_uart_data ::
  "ld2450_consts \<Rightarrow> ld2450_cmd_t \<Rightarrow> nat \<Rightarrow> byte list \<Rightarrow> ack_wait \<Rightarrow> ack_wait" where
  "on_uart_data P cmd ev_size rx w =
     (let bytes_to_read = min ev_size (LD2450_ACK_BUFFER_SIZE P - idx w);
          got = take bytes_to_read rx;
          bytes_read = length got;
          w0 = w\<lparr>buf := write_at (buf w) (idx w) got\<rparr>
      in
        if bytes_read > 0 then
          if \<not> found_header w0 \<and> idx w0 + bytes_read \<ge> 4
             \<and> take 4 (buf w0) = LD2450_DATA_FRAME_HEADER
          then w0\<lparr>idx := 0\<rparr>
          else look_for_footer (look_for_echo cmd (look_for_header
                 (w0\<lparr>idx := idx w0 + bytes_read\<rparr>)))
        else w)"

text \<open>
  The loop \<open>while ((xTaskGetTickCount() - start_time) < timeout_ticks && idx <
  LD2450_ACK_BUFFER_SIZE)\<close>, over the passes the environment provides.
\<close>

fun await_ack ::
  "ld2450_consts \<Rightarrow> ld2450_cmd_t \<Rightarrow> nat \<Rightarrow> (nat \<times> uart_event) list \<Rightarrow> ack_wait \<Rightarrow> ack_wait" where
  "await_ack P cmd timeout_ticks [] w = w"
| "await_ack P cmd timeout_ticks ((elapsed, ev) # rest) w =
     (if elapsed < timeout_ticks \<and> idx w < LD2450_ACK_BUFFER_SIZE P then
        (let w' = (case ev of UART_DATA ev_size rx \<Rightarrow> on_uart_data P cmd ev_size rx w | _ \<Rightarrow> w)
         in if found_footer w' then w' else await_ack P cmd timeout_ticks rest w')
      else w)"

text \<open>
  \<open>ld2450_send_command(cmd, value, value_len, ack_buffer, ack_len, timeout_ms)\<close>.
  \<open>val\<close> is the value (empty for \<open>NULL\<close>), \<open>want_ack\<close> says that \<open>ack_buffer\<close>
  and \<open>ack_len\<close> are both given; the result carries the code returned and what was
  copied to the caller's buffer. The validation cannot leave the buffer (lemma
  \<open>validate_ack_eq\<close>), so its \<open>None\<close> has no branch of the C code to follow.
\<close>

definition ld2450_send_command ::
  "ld2450_consts \<Rightarrow> ld2450_cmd_t \<Rightarrow> byte list \<Rightarrow> bool \<Rightarrow> nat \<Rightarrow> ld2450_state_t
     \<Rightarrow> (esp_err_t \<times> byte list option) \<times> ld2450_state_t" where
  "ld2450_send_command P cmd val want_ack timeout_ms s =
     (if \<not> initialized s then ((ESP_ERR_INVALID_STATE, None), s)
      else
        let env = next_env s;
            s0 = s\<lparr>script := tl (script s)\<rparr>
        in
          if \<not> lock_granted env then ((ESP_ERR_TIMEOUT, None), s0)
          else
            let pkt = build_command_packet cmd val;
                cmd_len = length pkt;
                s1 = s0\<lparr>mutex_taken := True,
                        effects := effects s0 @ [Uart_flush, Queue_drain, Uart_write pkt]\<rparr>;
                sent = uart_write_bytes env cmd_len
            in
              if sent \<noteq> int cmd_len then ((ESP_FAIL, None), s1\<lparr>mutex_taken := False\<rparr>)
              else
                let w = await_ack P cmd (pdMS_TO_TICKS P timeout_ms) (polls env)
                          (wait0 (ack_buffer s1));
                    s2 = s1\<lparr>ack_buffer := buf w\<rparr>
                in
                  if \<not> found_header w \<or> \<not> found_footer w then
                    let n = (if idx w > LD2450_ERROR_BUFFER_SIZE P
                             then LD2450_ERROR_BUFFER_SIZE P else idx w);
                        s3 = s2\<lparr>error_buffer_len := n\<rparr>;
                        s4 = (if idx w > 0
                              then s3\<lparr>error_buffer :=
                                      write_at (error_buffer s3) 0 (take n (buf w))\<rparr>
                              else s3)
                    in ((ESP_ERR_TIMEOUT, None), s4\<lparr>mutex_taken := False\<rparr>)
                  else
                    let out = (if want_ack then Some (take (idx w) (buf w)) else None);
                        ret = (case ld2450_validate_ack (take (idx w) (buf w)) cmd of
                                 Some (r, lg) \<Rightarrow> r
                               | None \<Rightarrow> ESP_FAIL)
                    in ((ret, out), s2\<lparr>mutex_taken := False\<rparr>))"

subsection \<open>Entering and leaving configuration mode\<close>

definition ld2450_enter_config_mode ::
  "ld2450_consts \<Rightarrow> ld2450_state_t \<Rightarrow> esp_err_t \<times> ld2450_state_t" where
  "ld2450_enter_config_mode P s =
     (if \<not> initialized s then (ESP_ERR_INVALID_STATE, s)
      else if in_config_mode s then (ESP_OK, s)
      else
        let s1 = s\<lparr>in_config_mode := True,
                    effects := effects s @ [Task_delay (pdMS_TO_TICKS P 50), Uart_flush]\<rparr>;
            (r, s2) = ld2450_send_command P (LD2450_CMD_ENABLE_CONFIG P) [0x01, 0x00] False
                        (LD2450_CONFIG_TIMEOUT_MS P) s1;
            ret = fst r
        in if ret = ESP_OK then (ret, s2) else (ret, s2\<lparr>in_config_mode := False\<rparr>))"

definition ld2450_exit_config_mode ::
  "ld2450_consts \<Rightarrow> ld2450_state_t \<Rightarrow> esp_err_t \<times> ld2450_state_t" where
  "ld2450_exit_config_mode P s =
     (if \<not> initialized s then (ESP_ERR_INVALID_STATE, s)
      else if \<not> in_config_mode s then (ESP_OK, s)
      else
        let (r, s1) = ld2450_send_command P (LD2450_CMD_END_CONFIG P) [] False
                        (LD2450_CONFIG_TIMEOUT_MS P) s;
            ret = fst r
        in if ret = ESP_OK then (ret, s1\<lparr>in_config_mode := False\<rparr>) else (ret, s1))"


subsection \<open>The public operations\<close>

text \<open>
  Every operation returns its code with the state; an out-parameter is an \<open>option\<close>,
  \<open>None\<close> when the function did not write it. The pointers passed in are never
  \<open>NULL\<close>. The statements between entering and leaving configuration mode are the
  \<open>_body\<close> of each operation.
\<close>

text \<open>\<open>ack_len >= n\<close>, where \<open>ack_len\<close> is set only when the acknowledgement was copied.\<close>

definition ack_len_ge :: "byte list option \<Rightarrow> nat \<Rightarrow> bool" where
  "ack_len_ge ack n = (case ack of Some a \<Rightarrow> n \<le> length a | None \<Rightarrow> False)"

text \<open>\<open>buf[i] | (buf[i + 1] << 8)\<close>.\<close>

definition le16 :: "byte list \<Rightarrow> nat \<Rightarrow> 16 word" where
  "le16 a i = ucast (a ! i) OR push_bit 8 (ucast (a ! (i + 1)))"

datatype ld2450_tracking_mode_t = LD2450_MODE_SINGLE_TARGET | LD2450_MODE_MULTI_TARGET

definition set_tracking_mode_body ::
  "ld2450_consts \<Rightarrow> ld2450_tracking_mode_t \<Rightarrow> ld2450_state_t \<Rightarrow> esp_err_t \<times> ld2450_state_t" where
  "set_tracking_mode_body P mode s =
     (let cmd = (if mode = LD2450_MODE_SINGLE_TARGET
                 then LD2450_CMD_SINGLE_TARGET P else LD2450_CMD_MULTI_TARGET P);
          (r, s1) = ld2450_send_command P cmd [] False (LD2450_CONFIG_TIMEOUT_MS P) s
      in (fst r, s1))"

definition ld2450_set_tracking_mode ::
  "ld2450_consts \<Rightarrow> ld2450_tracking_mode_t \<Rightarrow> ld2450_state_t \<Rightarrow> esp_err_t \<times> ld2450_state_t" where
  "ld2450_set_tracking_mode P mode s =
     (if \<not> initialized s then (ESP_ERR_INVALID_STATE, s)
      else
        let (ret, s1) = ld2450_enter_config_mode P s in
        if ret \<noteq> ESP_OK then (ret, s1)
        else
          let (ret, s2) = set_tracking_mode_body P mode s1;
              (exit_ret, s3) = ld2450_exit_config_mode P s2
          in (if ret \<noteq> ESP_OK then ret else exit_ret, s3))"

definition get_tracking_mode_body ::
  "ld2450_consts \<Rightarrow> ld2450_state_t
     \<Rightarrow> (esp_err_t \<times> ld2450_tracking_mode_t option) \<times> ld2450_state_t" where
  "get_tracking_mode_body P s =
     (let ((ret, ack), s1) = ld2450_send_command P (LD2450_CMD_QUERY_TARGET_MODE P) [] True
                               (LD2450_CONFIG_TIMEOUT_MS P) s
      in
        if ret = ESP_OK \<and> ack_len_ge ack 12 then
          (case map_option (\<lambda>a. le16 a 10) ack of
             Some mode_value \<Rightarrow>
               if mode_value = 0x0001 then ((ret, Some LD2450_MODE_SINGLE_TARGET), s1)
               else if mode_value = 0x0002 then ((ret, Some LD2450_MODE_MULTI_TARGET), s1)
               else ((ESP_ERR_INVALID_RESPONSE, None), s1)
           | None \<Rightarrow> ((ret, None), s1))
        else ((ret, None), s1))"

definition ld2450_get_tracking_mode ::
  "ld2450_consts \<Rightarrow> ld2450_state_t
     \<Rightarrow> (esp_err_t \<times> ld2450_tracking_mode_t option) \<times> ld2450_state_t" where
  "ld2450_get_tracking_mode P s =
     (if \<not> initialized s then ((ESP_ERR_INVALID_ARG, None), s)
      else
        let (ret, s1) = ld2450_enter_config_mode P s in
        if ret \<noteq> ESP_OK then ((ret, None), s1)
        else
          let ((ret, mode), s2) = get_tracking_mode_body P s1;
              (exit_ret, s3) = ld2450_exit_config_mode P s2
          in ((if ret \<noteq> ESP_OK then ret else exit_ret, mode), s3))"

record ld2450_firmware_version_t =
  main_version :: "16 word"
  sub_version :: "32 word"
  version_string :: string

text \<open>
  The conversions of \<open>snprintf\<close> that the version string uses: \<open>%u\<close> prints the
  decimal digits, \<open>%02u\<close> and \<open>%08lu\<close> pad them with zeros on the left to 2 and 8
  characters, and the output is cut to one character less than the size given.
\<close>

fun dec :: "nat \<Rightarrow> string" where
  "dec n = (if n < 10 then [''0123456789'' ! n]
            else dec (n div 10) @ [''0123456789'' ! (n mod 10)])"

declare dec.simps [simp del]

definition pad0 :: "nat \<Rightarrow> string \<Rightarrow> string" where
  "pad0 width ds = replicate (width - length ds) CHR ''0'' @ ds"

definition format_version :: "nat \<Rightarrow> 16 word \<Rightarrow> 32 word \<Rightarrow> string" where
  "format_version sz mainv subv =
     take (sz - 1)
       (''V'' @ dec (unat (drop_bit 8 mainv AND 0xFF))
        @ ''.'' @ pad0 2 (dec (unat (mainv AND 0xFF)))
        @ ''.'' @ pad0 8 (dec (unat subv)))"

text \<open>
  The branch of a successful attempt: main version from bytes 12 and 13, sub-version
  from bytes 14 to 17, both little-endian, and the string made of them.
\<close>

definition parse_firmware_version :: "ld2450_consts \<Rightarrow> byte list \<Rightarrow> ld2450_firmware_version_t" where
  "parse_firmware_version P a =
     (let mainv = le16 a 12;
          subv = (ucast (a ! 14) OR push_bit 8 (ucast (a ! 15))
                  OR push_bit 16 (ucast (a ! 16)) OR push_bit 24 (ucast (a ! 17)) :: 32 word)
      in \<lparr>main_version = mainv, sub_version = subv,
          version_string = format_version (VERSION_STRING_SIZE P) mainv subv\<rparr>)"

text \<open>
  The loop \<open>for (attempt = 0; attempt < 3; attempt++)\<close>, by the attempts left;
  \<open>ret\<close> is the code of the attempt before, which is what stays when no attempt is left.
\<close>

fun fw_attempts ::
  "ld2450_consts \<Rightarrow> nat \<Rightarrow> esp_err_t \<Rightarrow> ld2450_state_t
     \<Rightarrow> (esp_err_t \<times> ld2450_firmware_version_t option) \<times> ld2450_state_t" where
  "fw_attempts P 0 ret s = ((ret, None), s)"
| "fw_attempts P (Suc k) ret s =
     (let ((ret', ack), s1) = ld2450_send_command P (LD2450_CMD_READ_FW_VERSION P) [] True 1000 s
      in
        if ret' = ESP_OK \<and> ack_len_ge ack 22
        then ((ret', map_option (parse_firmware_version P) ack), s1)
        else fw_attempts P k ret'
               (s1\<lparr>effects := effects s1 @ [Task_delay (pdMS_TO_TICKS P 200), Uart_flush]\<rparr>))"

definition get_firmware_version_body ::
  "ld2450_consts \<Rightarrow> ld2450_state_t
     \<Rightarrow> (esp_err_t \<times> ld2450_firmware_version_t option) \<times> ld2450_state_t" where
  "get_firmware_version_body P s =
     (let s1 = s\<lparr>effects := effects s @ [Task_delay (pdMS_TO_TICKS P 100), Uart_flush, Queue_drain]\<rparr>;
          ((ret, version), s2) = fw_attempts P 3 ESP_OK s1
      in ((if ret \<noteq> ESP_OK then ESP_ERR_INVALID_RESPONSE else ret, version), s2))"

definition ld2450_get_firmware_version ::
  "ld2450_consts \<Rightarrow> ld2450_state_t
     \<Rightarrow> (esp_err_t \<times> ld2450_firmware_version_t option) \<times> ld2450_state_t" where
  "ld2450_get_firmware_version P s =
     (if \<not> initialized s then ((ESP_ERR_INVALID_ARG, None), s)
      else
        let (ret, s1) = ld2450_enter_config_mode P s in
        if ret \<noteq> ESP_OK then ((ret, None), s1)
        else
          let ((ret, version), s2) = get_firmware_version_body P s1;
              (exit_ret, s3) = ld2450_exit_config_mode P s2
          in ((if ret \<noteq> ESP_OK then ret else exit_ret, version), s3))"

text \<open>\<open>ld2450_baud_rate_t\<close> is an enumeration, passed as its integer.\<close>

definition set_baud_rate_body ::
  "ld2450_consts \<Rightarrow> int \<Rightarrow> ld2450_state_t \<Rightarrow> esp_err_t \<times> ld2450_state_t" where
  "set_baud_rate_body P baud_rate s =
     (let (r, s1) = ld2450_send_command P (LD2450_CMD_SET_BAUD_RATE P)
                      [word_of_int baud_rate, word_of_int (drop_bit 8 baud_rate)] False
                      (LD2450_CONFIG_TIMEOUT_MS P) s
      in (fst r, s1))"

definition ld2450_set_baud_rate ::
  "ld2450_consts \<Rightarrow> int \<Rightarrow> ld2450_state_t \<Rightarrow> esp_err_t \<times> ld2450_state_t" where
  "ld2450_set_baud_rate P baud_rate s =
     (if \<not> initialized s then (ESP_ERR_INVALID_STATE, s)
      else if baud_rate < LD2450_BAUD_9600 P \<or> baud_rate > LD2450_BAUD_460800 P
      then (ESP_ERR_INVALID_ARG, s)
      else
        let (ret, s1) = ld2450_enter_config_mode P s in
        if ret \<noteq> ESP_OK then (ret, s1)
        else
          let (ret, s2) = set_baud_rate_body P baud_rate s1;
              (exit_ret, s3) = ld2450_exit_config_mode P s2
          in (if ret \<noteq> ESP_OK then ret else exit_ret, s3))"

definition restore_factory_settings_body ::
  "ld2450_consts \<Rightarrow> ld2450_state_t \<Rightarrow> esp_err_t \<times> ld2450_state_t" where
  "restore_factory_settings_body P s =
     (let (r, s1) = ld2450_send_command P (LD2450_CMD_RESTORE_FACTORY P) [] False
                      (LD2450_CONFIG_TIMEOUT_MS P) s
      in (fst r, s1))"

definition ld2450_restore_factory_settings ::
  "ld2450_consts \<Rightarrow> ld2450_state_t \<Rightarrow> esp_err_t \<times> ld2450_state_t" where
  "ld2450_restore_factory_settings P s =
     (if \<not> initialized s then (ESP_ERR_INVALID_STATE, s)
      else
        let (ret, s1) = ld2450_enter_config_mode P s in
        if ret \<noteq> ESP_OK then (ret, s1)
        else
          let (ret, s2) = restore_factory_settings_body P s1;
              (exit_ret, s3) = ld2450_exit_config_mode P s2
          in (if ret \<noteq> ESP_OK then ret else exit_ret, s3))"

text \<open>
  \<open>ld2450_restart_module\<close>: after a restart that was acknowledged, the delay and the
  flag set by hand; after one that was not, \<open>ld2450_exit_config_mode\<close>, whose code is
  dropped.
\<close>

definition restart_module_body ::
  "ld2450_consts \<Rightarrow> ld2450_state_t \<Rightarrow> esp_err_t \<times> ld2450_state_t" where
  "restart_module_body P s =
     (let (r, s1) = ld2450_send_command P (LD2450_CMD_RESTART_MODULE P) [] False
                      (LD2450_CONFIG_TIMEOUT_MS P) s
      in (fst r, s1))"

definition ld2450_restart_module ::
  "ld2450_consts \<Rightarrow> ld2450_state_t \<Rightarrow> esp_err_t \<times> ld2450_state_t" where
  "ld2450_restart_module P s =
     (if \<not> initialized s then (ESP_ERR_INVALID_STATE, s)
      else
        let (ret, s1) = ld2450_enter_config_mode P s in
        if ret \<noteq> ESP_OK then (ret, s1)
        else
          let (ret, s2) = restart_module_body P s1 in
          if ret = ESP_OK
          then (ret, s2\<lparr>effects := effects s2
                            @ [Task_delay (pdMS_TO_TICKS P (LD2450_RESTART_TIMEOUT_MS P))],
                        in_config_mode := False\<rparr>)
          else (ret, snd (ld2450_exit_config_mode P s2)))"

definition set_bluetooth_body ::
  "ld2450_consts \<Rightarrow> bool \<Rightarrow> ld2450_state_t \<Rightarrow> esp_err_t \<times> ld2450_state_t" where
  "set_bluetooth_body P enable s =
     (let (r, s1) = ld2450_send_command P (LD2450_CMD_SET_BLUETOOTH P)
                      [if enable then 0x01 else 0x00, 0x00] False
                      (LD2450_CONFIG_TIMEOUT_MS P) s
      in (fst r, s1))"

definition ld2450_set_bluetooth ::
  "ld2450_consts \<Rightarrow> bool \<Rightarrow> ld2450_state_t \<Rightarrow> esp_err_t \<times> ld2450_state_t" where
  "ld2450_set_bluetooth P enable s =
     (if \<not> initialized s then (ESP_ERR_INVALID_STATE, s)
      else
        let (ret, s1) = ld2450_enter_config_mode P s in
        if ret \<noteq> ESP_OK then (ret, s1)
        else
          let (ret, s2) = set_bluetooth_body P enable s1;
              (exit_ret, s3) = ld2450_exit_config_mode P s2
          in (if ret \<noteq> ESP_OK then ret else exit_ret, s3))"

definition get_mac_address_body ::
  "ld2450_consts \<Rightarrow> ld2450_state_t \<Rightarrow> (esp_err_t \<times> byte list option) \<times> ld2450_state_t" where
  "get_mac_address_body P s =
     (let ((ret, ack), s1) = ld2450_send_command P (LD2450_CMD_GET_MAC_ADDRESS P) [0x01, 0x00]
                               True (LD2450_CONFIG_TIMEOUT_MS P) s
      in
        if ret = ESP_OK \<and> ack_len_ge ack 16
        then ((ret, map_option (\<lambda>a. take 6 (drop 10 a)) ack), s1)
        else ((ESP_ERR_INVALID_RESPONSE, None), s1))"

definition ld2450_get_mac_address ::
  "ld2450_consts \<Rightarrow> ld2450_state_t \<Rightarrow> (esp_err_t \<times> byte list option) \<times> ld2450_state_t" where
  "ld2450_get_mac_address P s =
     (if \<not> initialized s then ((ESP_ERR_INVALID_ARG, None), s)
      else
        let (ret, s1) = ld2450_enter_config_mode P s in
        if ret \<noteq> ESP_OK then ((ret, None), s1)
        else
          let ((ret, mac), s2) = get_mac_address_body P s1;
              (exit_ret, s3) = ld2450_exit_config_mode P s2
          in ((if ret \<noteq> ESP_OK then ret else exit_ret, mac), s3))"

text \<open>
  \<open>ld2450_region_t\<close>: four \<open>int16_t\<close> coordinates. \<open>ld2450_filter_type_t\<close> is an
  enumeration written and read as 16 bits.
\<close>

record ld2450_region_t =
  x1 :: "16 word"
  y1 :: "16 word"
  x2 :: "16 word"
  y2 :: "16 word"

text \<open>\<open>v & 0xFF\<close> and \<open>(v >> 8) & 0xFF\<close>.\<close>

definition le16_bytes :: "16 word \<Rightarrow> byte list" where
  "le16_bytes v = [ucast v, ucast (drop_bit 8 v)]"

definition region_bytes :: "ld2450_region_t \<Rightarrow> byte list" where
  "region_bytes r = le16_bytes (x1 r) @ le16_bytes (y1 r) @ le16_bytes (x2 r) @ le16_bytes (y2 r)"

definition set_region_filter_body ::
  "ld2450_consts \<Rightarrow> 16 word \<Rightarrow> ld2450_region_t \<times> ld2450_region_t \<times> ld2450_region_t
     \<Rightarrow> ld2450_state_t \<Rightarrow> esp_err_t \<times> ld2450_state_t" where
  "set_region_filter_body P ftype regions s =
     (let (r0, r1, r2) = regions;
          val = le16_bytes ftype @ region_bytes r0 @ region_bytes r1 @ region_bytes r2;
          (r, s1) = ld2450_send_command P (LD2450_CMD_SET_REGION P) val False
                      (LD2450_CONFIG_TIMEOUT_MS P) s
      in (fst r, s1))"

definition ld2450_set_region_filter ::
  "ld2450_consts \<Rightarrow> 16 word \<Rightarrow> ld2450_region_t \<times> ld2450_region_t \<times> ld2450_region_t
     \<Rightarrow> ld2450_state_t \<Rightarrow> esp_err_t \<times> ld2450_state_t" where
  "ld2450_set_region_filter P ftype regions s =
     (if \<not> initialized s then (ESP_ERR_INVALID_ARG, s)
      else
        let (ret, s1) = ld2450_enter_config_mode P s in
        if ret \<noteq> ESP_OK then (ret, s1)
        else
          let (ret, s2) = set_region_filter_body P ftype regions s1;
              (exit_ret, s3) = ld2450_exit_config_mode P s2
          in (if ret \<noteq> ESP_OK then ret else exit_ret, s3))"

definition parse_region :: "byte list \<Rightarrow> nat \<Rightarrow> ld2450_region_t" where
  "parse_region a i =
     (let offset = 12 + i * 8
      in \<lparr>x1 = le16 a offset, y1 = le16 a (offset + 2),
          x2 = le16 a (offset + 4), y2 = le16 a (offset + 6)\<rparr>)"

definition get_region_filter_body ::
  "ld2450_consts \<Rightarrow> ld2450_state_t
     \<Rightarrow> (esp_err_t \<times> (16 word \<times> ld2450_region_t \<times> ld2450_region_t \<times> ld2450_region_t) option)
        \<times> ld2450_state_t" where
  "get_region_filter_body P s =
     (let ((ret, ack), s1) = ld2450_send_command P (LD2450_CMD_QUERY_REGION P) [] True
                               (LD2450_CONFIG_TIMEOUT_MS P) s
      in
        if ret = ESP_OK \<and> ack_len_ge ack 40
        then ((ret, map_option
                 (\<lambda>a. (le16 a 10, parse_region a 0, parse_region a 1, parse_region a 2)) ack), s1)
        else ((ESP_ERR_INVALID_RESPONSE, None), s1))"

definition ld2450_get_region_filter ::
  "ld2450_consts \<Rightarrow> ld2450_state_t
     \<Rightarrow> (esp_err_t \<times> (16 word \<times> ld2450_region_t \<times> ld2450_region_t \<times> ld2450_region_t) option)
        \<times> ld2450_state_t" where
  "ld2450_get_region_filter P s =
     (if \<not> initialized s then ((ESP_ERR_INVALID_ARG, None), s)
      else
        let (ret, s1) = ld2450_enter_config_mode P s in
        if ret \<noteq> ESP_OK then ((ret, None), s1)
        else
          let ((ret, out), s2) = get_region_filter_body P s1;
              (exit_ret, s3) = ld2450_exit_config_mode P s2
          in ((if ret \<noteq> ESP_OK then ret else exit_ret, out), s3))"


subsection \<open>Vocabulary of the statements\<close>

text \<open>
  A pass of the waiting loop, before the deadline \<open>T\<close>, whose event is \<open>UART_DATA\<close>
  for a read that starts with the telemetry header and is read whole.
\<close>

definition telemetry_read :: "nat \<Rightarrow> nat \<times> uart_event \<Rightarrow> bool" where
  "telemetry_read T p =
     (fst p < T \<and>
      (case snd p of
         UART_DATA n rx \<Rightarrow> n = length rx \<and> take 4 rx = LD2450_DATA_FRAME_HEADER
       | _ \<Rightarrow> False))"

text \<open>
  An instance of the constants for the examples: the command words of the HLK-LD2450
  serial protocol, the standard timeout of 3 seconds that the comment in
  \<open>ld2450_get_firmware_version\<close> mentions, a tick of 10 ms, and sizes picked for the
  examples.
\<close>

definition example_consts :: ld2450_consts where
  "example_consts =
     \<lparr>LD2450_ACK_BUFFER_SIZE = 64,
      LD2450_ERROR_BUFFER_SIZE = 32,
      LD2450_CONFIG_TIMEOUT_MS = 3000,
      LD2450_RESTART_TIMEOUT_MS = 2000,
      VERSION_STRING_SIZE = 32,
      pdMS_TO_TICKS = (\<lambda>ms. ms div 10),
      LD2450_CMD_ENABLE_CONFIG = 0x00FF,
      LD2450_CMD_END_CONFIG = 0x00FE,
      LD2450_CMD_SINGLE_TARGET = 0x0080,
      LD2450_CMD_MULTI_TARGET = 0x0090,
      LD2450_CMD_QUERY_TARGET_MODE = 0x0091,
      LD2450_CMD_READ_FW_VERSION = 0x00A0,
      LD2450_CMD_SET_BAUD_RATE = 0x00A1,
      LD2450_CMD_RESTORE_FACTORY = 0x00A2,
      LD2450_CMD_RESTART_MODULE = 0x00A3,
      LD2450_CMD_SET_BLUETOOTH = 0x00A4,
      LD2450_CMD_GET_MAC_ADDRESS = 0x00A5,
      LD2450_CMD_SET_REGION = 0x00C2,
      LD2450_CMD_QUERY_REGION = 0x00C1,
      LD2450_BAUD_9600 = 1,
      LD2450_BAUD_460800 = 8\<rparr>"

text \<open>
  An initialised instance in normal mode with zeroed buffers of the example sizes, nothing
  done yet, and the given environments for the transactions to come.
\<close>

definition example_state :: "txn_env list \<Rightarrow> ld2450_state_t" where
  "example_state envs =
     \<lparr>initialized = True, in_config_mode = False, mutex_taken = False,
      ack_buffer = replicate 64 0, error_buffer = replicate 32 0, error_buffer_len = 0,
      effects = [], script = envs\<rparr>"

text \<open>The environment of a transaction in which the given reads arrive, one per tick.\<close>

definition reads_env :: "byte list list \<Rightarrow> txn_env" where
  "reads_env rs =
     \<lparr>lock_granted = True, bytes_sent = None,
      polls = map (\<lambda>(t, r). (t, UART_DATA (length r) r)) (zip [0 ..< length rs] rs)\<rparr>"

text \<open>A telemetry frame of 30 bytes and the acknowledgements used in the examples.\<close>

definition example_telemetry :: "byte list" where
  "example_telemetry =
     [0xAA, 0xFF, 0x03, 0x00,
      0x0E, 0x03, 0xB1, 0x86, 0x10, 0x00, 0x40, 0x01,
      0x00, 0x00, 0x00, 0x00, 0x00, 0x00, 0x00, 0x00,
      0x00, 0x00, 0x00, 0x00, 0x00, 0x00, 0x00, 0x00,
      0x55, 0xCC]"

definition example_ack :: "byte \<Rightarrow> byte list" where
  "example_ack echo =
     [0xFD, 0xFC, 0xFB, 0xFA, 0x04, 0x00, echo, 0x01, 0x00, 0x00, 0x04, 0x03, 0x02, 0x01]"


text \<open>
  What holds of the locals throughout the loop: the buffer keeps its size, \<open>idx\<close>
  stays within it, and the footer is only ever found after the header.
\<close>

definition wait_inv :: "ld2450_consts \<Rightarrow> ack_wait \<Rightarrow> bool" where
  "wait_inv P w =
     (length (buf w) = LD2450_ACK_BUFFER_SIZE P \<and> idx w \<le> LD2450_ACK_BUFFER_SIZE P
      \<and> (found_footer w \<longrightarrow> found_header w))"

text \<open>The environment of a transaction whose mutex is not obtained in time.\<close>

definition busy_env :: txn_env where
  "busy_env = \<lparr>lock_granted = False, bytes_sent = None, polls = []\<rparr>"






text \<open>The code and the state of a result, without the out-parameter.\<close>

definition code_of :: "('e \<times> 'a) \<times> 's \<Rightarrow> 'e \<times> 's" where
  "code_of r = (fst (fst r), snd r)"

text \<open>
  The rule of the specification for an operation between entering and leaving
  configuration mode: when entering fails the operation returns what entering returned
  and the state is as entering left it; when entering succeeds and the body fails, the
  code is the body's, whatever leaving returns; when both succeed, the code is the one
  of leaving.
\<close>

definition bracket_law ::
  "ld2450_consts \<Rightarrow> (ld2450_state_t \<Rightarrow> esp_err_t \<times> ld2450_state_t)
     \<Rightarrow> (ld2450_state_t \<Rightarrow> esp_err_t \<times> ld2450_state_t) \<Rightarrow> ld2450_state_t \<Rightarrow> bool" where
  "bracket_law P oper body s =
     (let en = ld2450_enter_config_mode P s;
          bo = body (snd en);
          ex = ld2450_exit_config_mode P (snd bo)
      in (fst en \<noteq> ESP_OK \<longrightarrow> oper s = en)
       \<and> (fst en = ESP_OK \<and> fst bo \<noteq> ESP_OK \<longrightarrow> oper s = (fst bo, snd ex))
       \<and> (fst en = ESP_OK \<and> fst bo = ESP_OK \<longrightarrow> oper s = ex))"

text \<open>
  One attempt of the firmware query, the test for a good attempt, the pause after a
  failed one, and the result of a good one.
\<close>

definition fw_attempt ::
  "ld2450_consts \<Rightarrow> ld2450_state_t \<Rightarrow> (esp_err_t \<times> byte list option) \<times> ld2450_state_t" where
  "fw_attempt P s = ld2450_send_command P (LD2450_CMD_READ_FW_VERSION P) [] True 1000 s"

definition fw_good :: "esp_err_t \<times> byte list option \<Rightarrow> bool" where
  "fw_good r = (fst r = ESP_OK \<and> ack_len_ge (snd r) 22)"

definition fw_backoff :: "ld2450_consts \<Rightarrow> ld2450_state_t \<Rightarrow> ld2450_state_t" where
  "fw_backoff P s = s\<lparr>effects := effects s @ [Task_delay (pdMS_TO_TICKS P 200), Uart_flush]\<rparr>"

definition fw_parsed ::
  "ld2450_consts \<Rightarrow> (esp_err_t \<times> byte list option) \<times> ld2450_state_t
     \<Rightarrow> (esp_err_t \<times> ld2450_firmware_version_t option) \<times> ld2450_state_t" where
  "fw_parsed P r = ((ESP_OK, map_option (parse_firmware_version P) (snd (fst r))), snd r)"

text \<open>
  A firmware acknowledgement of 22 bytes, by its bytes 12 and 13 (the main version);
  bytes 14 to 17 are 16 24 06 22.
\<close>

definition example_fw_ack :: "byte \<Rightarrow> byte \<Rightarrow> byte list" where
  "example_fw_ack m0 m1 =
     [0xFD, 0xFC, 0xFB, 0xFA, 0x0C, 0x00, 0xA0, 0x01, 0x00, 0x00, 0x00, 0x00,
      m0, m1, 0x16, 0x24, 0x06, 0x22, 0x04, 0x03, 0x02, 0x01]"

text \<open>A state ready for the next transaction, with the environments to come.\<close>

definition ready :: "ld2450_consts \<Rightarrow> ld2450_state_t \<Rightarrow> txn_env list \<Rightarrow> bool" where
  "ready P s envs = (initialized s \<and> length (ack_buffer s) = LD2450_ACK_BUFFER_SIZE P \<and> script s = envs)"


section \<open>Properties\<close>

subsection \<open>Validation of an acknowledgement\<close>

lemma and255: "(x :: byte) AND 255 = x"
proof -
  have "(255 :: byte) = - 1" by simp
  then show ?thesis by (simp only: bit.conj_one_right)
qed

lemma mask8: "(0xFF :: 16 word) = mask 8" by (simp add: mask_eq_exp_minus_1)

lemma low_byte_eq: "((ucast (b :: byte) :: 16 word) = (cmd AND 0xFF)) = (b = ucast cmd)"
proof
  assume h: "(ucast b :: 16 word) = cmd AND 0xFF"
  have "ucast (ucast b :: 16 word) = (ucast (cmd AND 0xFF) :: byte)" using h by simp
  then show "b = ucast cmd"
    by (simp add: ucast_down_ucast_id is_down unsigned_and_eq and255) 
next
  assume "b = ucast cmd"
  then show "(ucast b :: 16 word) = cmd AND 0xFF"
    unfolding mask8
    apply simp
    apply (rule bit_word_eqI)
    apply (auto simp add: bit_simps)
    done
qed

lemma ucast_byte_eq_num: "((ucast (b :: byte) :: 16 word) = 1) = (b = 1)" "((ucast (b :: byte) :: 16 word) = 0) = (b = 0)"
  using low_byte_eq[of b 1] low_byte_eq[of b 0] by simp_all

lemma len_magic: "length LD2450_CONFIG_FRAME_HEADER = 4" "length LD2450_CONFIG_FRAME_FOOTER = 4"
  "length LD2450_DATA_FRAME_HEADER = 4"
  by (simp_all add: LD2450_CONFIG_FRAME_HEADER_def LD2450_CONFIG_FRAME_FOOTER_def LD2450_DATA_FRAME_HEADER_def)

lemma validate_ack_eq:
  "ld2450_validate_ack ack cmd = Some
     (if length ack < 10 then (ESP_ERR_INVALID_SIZE, [ACK_too_short (length ack)])
      else if take 4 ack \<noteq> LD2450_CONFIG_FRAME_HEADER
            \<or> drop (length ack - 4) ack \<noteq> LD2450_CONFIG_FRAME_FOOTER
        then (ESP_ERR_INVALID_RESPONSE, [Invalid_ACK_header_footer])
      else if ack ! 6 \<noteq> ucast cmd \<or> ack ! 7 \<noteq> 0x01
        then (ESP_ERR_INVALID_RESPONSE, [Invalid_command_echo (ack ! 6) (ack ! 7)])
      else if ack ! 8 \<noteq> 0x00 \<or> ack ! 9 \<noteq> 0x00
        then (ESP_ERR_INVALID_RESPONSE, [Command_failed_status (ack ! 8) (ack ! 9)])
      else (ESP_OK, []))"
proof (cases "length ack < 10")
  case True
  then show ?thesis by (simp add: ld2450_validate_ack_def)
next
  case False
  then have len: "10 \<le> length ack" by simp
  have hdr: "memcmp_eq ack 0 LD2450_CONFIG_FRAME_HEADER = Some (take 4 ack = LD2450_CONFIG_FRAME_HEADER)"
    using len by (simp add: memcmp_eq_def len_magic)
  have ftr: "memcmp_eq ack (length ack - 4) LD2450_CONFIG_FRAME_FOOTER
       = Some (drop (length ack - 4) ack = LD2450_CONFIG_FRAME_FOOTER)"
    using len by (simp add: memcmp_eq_def len_magic)
  have r: "rd ack 6 = Some (ack ! 6)" "rd ack 7 = Some (ack ! 7)"
     "rd ack 8 = Some (ack ! 8)" "rd ack 9 = Some (ack ! 9)"
    using len by (simp_all add: rd_def)
  show ?thesis
    using False
    by (simp add: ld2450_validate_ack_def Let_def hdr ftr r sc_or_def byte_ne_def
          low_byte_eq ucast_byte_eq_num split: bool.splits)
qed

text \<open>
  Claim C2, as amended. A buffer shorter than 10 bytes fails with
  \<open>ESP_ERR_INVALID_SIZE\<close> (too short). A buffer of at least 14 bytes, the length of the
  shortest valid frame, is checked in this order: a first four bytes other than
  FD FC FB FA, or a last four other than 04 03 02 01, fail as a framing error; then an
  echo byte at offset 6 other than the low byte of the command, or a marker at offset 7
  other than 0x01, fail as an echo error; then a nonzero status word at offsets 8 and 9
  fails as a rejection by the device; everything else succeeds. The three later failures
  return the one code \<open>ESP_ERR_INVALID_RESPONSE\<close> and differ only in the line logged.
  Which error a buffer of 10 to 13 bytes gets is not part of the statement.
\<close>

theorem validate_ack_order_and_codes:
  "(length ack < 10 \<longrightarrow>
      ld2450_validate_ack ack cmd = Some (ESP_ERR_INVALID_SIZE, [ACK_too_short (length ack)]))
   \<and> (14 \<le> length ack
        \<and> (take 4 ack \<noteq> LD2450_CONFIG_FRAME_HEADER
           \<or> drop (length ack - 4) ack \<noteq> LD2450_CONFIG_FRAME_FOOTER) \<longrightarrow>
      ld2450_validate_ack ack cmd = Some (ESP_ERR_INVALID_RESPONSE, [Invalid_ACK_header_footer]))
   \<and> (14 \<le> length ack
        \<and> take 4 ack = LD2450_CONFIG_FRAME_HEADER
        \<and> drop (length ack - 4) ack = LD2450_CONFIG_FRAME_FOOTER
        \<and> (ack ! 6 \<noteq> ucast cmd \<or> ack ! 7 \<noteq> 0x01) \<longrightarrow>
      ld2450_validate_ack ack cmd
        = Some (ESP_ERR_INVALID_RESPONSE, [Invalid_command_echo (ack ! 6) (ack ! 7)]))
   \<and> (14 \<le> length ack
        \<and> take 4 ack = LD2450_CONFIG_FRAME_HEADER
        \<and> drop (length ack - 4) ack = LD2450_CONFIG_FRAME_FOOTER
        \<and> ack ! 6 = ucast cmd \<and> ack ! 7 = 0x01
        \<and> (ack ! 8 \<noteq> 0x00 \<or> ack ! 9 \<noteq> 0x00) \<longrightarrow>
      ld2450_validate_ack ack cmd
        = Some (ESP_ERR_INVALID_RESPONSE, [Command_failed_status (ack ! 8) (ack ! 9)]))
   \<and> (14 \<le> length ack
        \<and> take 4 ack = LD2450_CONFIG_FRAME_HEADER
        \<and> drop (length ack - 4) ack = LD2450_CONFIG_FRAME_FOOTER
        \<and> ack ! 6 = ucast cmd \<and> ack ! 7 = 0x01
        \<and> ack ! 8 = 0x00 \<and> ack ! 9 = 0x00 \<longrightarrow>
      ld2450_validate_ack ack cmd = Some (ESP_OK, []))"
  by (simp add: validate_ack_eq)

theorem validate_ack_order_and_codes_witness:
  "ld2450_validate_ack [0xFD, 0xFC, 0xFB] 0x00FF
      = Some (ESP_ERR_INVALID_SIZE, [ACK_too_short 3])
   \<and> ld2450_validate_ack
        [0xAA, 0xFF, 0x03, 0x00, 0x04, 0x00, 0xFF, 0x01, 0x00, 0x00, 0x04, 0x03, 0x02, 0x01] 0x00FF
      = Some (ESP_ERR_INVALID_RESPONSE, [Invalid_ACK_header_footer])
   \<and> ld2450_validate_ack
        [0xFD, 0xFC, 0xFB, 0xFA, 0x04, 0x00, 0xFE, 0x01, 0x01, 0x00, 0x04, 0x03, 0x02, 0x01] 0x00FF
      = Some (ESP_ERR_INVALID_RESPONSE, [Invalid_command_echo 0xFE 0x01])
   \<and> ld2450_validate_ack
        [0xFD, 0xFC, 0xFB, 0xFA, 0x04, 0x00, 0xFF, 0x01, 0x01, 0x00, 0x04, 0x03, 0x02, 0x01] 0x00FF
      = Some (ESP_ERR_INVALID_RESPONSE, [Command_failed_status 0x01 0x00])
   \<and> ld2450_validate_ack
        [0xFD, 0xFC, 0xFB, 0xFA, 0x04, 0x00, 0xFF, 0x01, 0x00, 0x00, 0x04, 0x03, 0x02, 0x01] 0x00FF
      = Some (ESP_OK, [])"
  using validate_ack_order_and_codes [of "[0xFD, 0xFC, 0xFB]" "0x00FF"]
    validate_ack_order_and_codes [of
      "[0xAA, 0xFF, 0x03, 0x00, 0x04, 0x00, 0xFF, 0x01, 0x00, 0x00, 0x04, 0x03, 0x02, 0x01]" "0x00FF"]
    validate_ack_order_and_codes [of
      "[0xFD, 0xFC, 0xFB, 0xFA, 0x04, 0x00, 0xFE, 0x01, 0x01, 0x00, 0x04, 0x03, 0x02, 0x01]" "0x00FF"]
    validate_ack_order_and_codes [of
      "[0xFD, 0xFC, 0xFB, 0xFA, 0x04, 0x00, 0xFF, 0x01, 0x01, 0x00, 0x04, 0x03, 0x02, 0x01]" "0x00FF"]
    validate_ack_order_and_codes [of
      "[0xFD, 0xFC, 0xFB, 0xFA, 0x04, 0x00, 0xFF, 0x01, 0x00, 0x00, 0x04, 0x03, 0x02, 0x01]" "0x00FF"]
  by (simp add: LD2450_CONFIG_FRAME_HEADER_def LD2450_CONFIG_FRAME_FOOTER_def)

text \<open>
  The claim as first stated fails. A buffer of 12 bytes is shorter than every valid frame,
  yet it passes the guard of 10 and is refused as a rejection by the device, its status
  word being the first half of the footer, not as too short. And a framing failure, an
  echo failure and a rejection return the same code.
\<close>

theorem validate_ack_short_frame_counterexample:
  "ld2450_validate_ack
      [0xFD, 0xFC, 0xFB, 0xFA, 0x00, 0x00, 0xFF, 0x01, 0x04, 0x03, 0x02, 0x01] 0x00FF
     = Some (ESP_ERR_INVALID_RESPONSE, [Command_failed_status 0x04 0x03])
   \<and> length [0xFD, 0xFC, 0xFB, 0xFA, 0x00, 0x00, 0xFF, 0x01, 0x04, 0x03, 0x02, 0x01 :: byte] < 14
   \<and> map_option fst (ld2450_validate_ack
        [0xAA, 0xFF, 0x03, 0x00, 0x04, 0x00, 0xFF, 0x01, 0x00, 0x00, 0x04, 0x03, 0x02, 0x01] 0x00FF)
      = Some ESP_ERR_INVALID_RESPONSE
   \<and> map_option fst (ld2450_validate_ack
        [0xFD, 0xFC, 0xFB, 0xFA, 0x04, 0x00, 0xFE, 0x01, 0x00, 0x00, 0x04, 0x03, 0x02, 0x01] 0x00FF)
      = Some ESP_ERR_INVALID_RESPONSE
   \<and> map_option fst (ld2450_validate_ack
        [0xFD, 0xFC, 0xFB, 0xFA, 0x04, 0x00, 0xFF, 0x01, 0x01, 0x00, 0x04, 0x03, 0x02, 0x01] 0x00FF)
      = Some ESP_ERR_INVALID_RESPONSE"
  by (simp add: validate_ack_eq LD2450_CONFIG_FRAME_HEADER_def LD2450_CONFIG_FRAME_FOOTER_def)

text \<open>
  Claim C5. For every buffer of every length, the empty one included, and every command,
  no read of the validation leaves the buffer (the result is never \<open>None\<close>), and a
  buffer that is too short, or has a wrong header, a wrong footer, a mismatched echo
  byte or a nonzero status never validates.
\<close>

theorem validate_ack_total_and_strict:
  "\<exists>r lg. ld2450_validate_ack ack cmd = Some (r, lg)
     \<and> (length ack < 10
          \<or> take 4 ack \<noteq> LD2450_CONFIG_FRAME_HEADER
          \<or> drop (length ack - 4) ack \<noteq> LD2450_CONFIG_FRAME_FOOTER
          \<or> rd ack 6 \<noteq> Some (ucast cmd)
          \<or> rd ack 8 \<noteq> Some 0x00 \<or> rd ack 9 \<noteq> Some 0x00
        \<longrightarrow> r \<noteq> ESP_OK)"
  by (auto simp add: validate_ack_eq rd_def)

lemma validate_ack_ok_iff:
  "(\<exists>lg. ld2450_validate_ack ack cmd = Some (ESP_OK, lg)) =
     (10 \<le> length ack
      \<and> take 4 ack = LD2450_CONFIG_FRAME_HEADER
      \<and> drop (length ack - 4) ack = LD2450_CONFIG_FRAME_FOOTER
      \<and> ack ! 6 = ucast cmd \<and> ack ! 7 = 0x01 \<and> ack ! 8 = 0x00 \<and> ack ! 9 = 0x00)"
  by (auto simp add: validate_ack_eq)

lemma footer_overlap:
  assumes len: "10 \<le> length ack" "length ack < 14"
    and ftr: "drop (length ack - 4) ack = LD2450_CONFIG_FRAME_FOOTER"
  shows "ack ! 7 \<noteq> 0x01 \<or> ack ! 8 \<noteq> 0x00 \<or> ack ! 9 \<noteq> 0x00"
proof -
  have nth: "\<And>i. i < 4 \<Longrightarrow> ack ! (length ack - 4 + i) = LD2450_CONFIG_FRAME_FOOTER ! i"
    using len ftr by (metis add_leD1 diff_le_self nth_drop numeral_Bit0)
  consider "length ack = 10" | "length ack = 11" | "length ack = 12" | "length ack = 13"
    using len by linarith
  then show ?thesis
  proof cases
    case 1 then show ?thesis using nth [of 1] by (simp add: LD2450_CONFIG_FRAME_FOOTER_def)
  next
    case 2 then show ?thesis using nth [of 0] by (simp add: LD2450_CONFIG_FRAME_FOOTER_def)
  next
    case 3 then show ?thesis using nth [of 0] by (simp add: LD2450_CONFIG_FRAME_FOOTER_def)
  next
    case 4 then show ?thesis using nth [of 0] by (simp add: LD2450_CONFIG_FRAME_FOOTER_def)
  qed
qed

theorem validate_ack_total_and_strict_witness:
  "(\<exists>r lg. ld2450_validate_ack [] 0x00FF = Some (r, lg) \<and> r \<noteq> ESP_OK)
   \<and> (\<exists>r lg. ld2450_validate_ack
          [0xFD, 0xFC, 0xFB, 0xFA, 0x04, 0x00, 0xFF, 0x01, 0x00, 0x00, 0x04, 0x03, 0x02, 0x00] 0x00FF
         = Some (r, lg) \<and> r \<noteq> ESP_OK)"
  using validate_ack_total_and_strict [of "[]" "0x00FF"]
    validate_ack_total_and_strict [of
      "[0xFD, 0xFC, 0xFB, 0xFA, 0x04, 0x00, 0xFF, 0x01, 0x00, 0x00, 0x04, 0x03, 0x02, 0x00]" "0x00FF"]
  by (simp add: LD2450_CONFIG_FRAME_FOOTER_def)

text \<open>
  Claim C10. Validation succeeds only on a buffer of at least 14 bytes. The guard asks
  for 10 only, but at every length from 10 to 13 the footer 04 03 02 01 at the end of the
  buffer lies over the marker (which must be 0x01) or the status word (which must be 00 00).
\<close>

theorem validate_ack_ok_needs_14:
  "(ld2450_validate_ack ack cmd = Some (ESP_OK, lg) \<longrightarrow> 14 \<le> length ack)
   \<and> (10 \<le> length ack \<and> length ack < 14
        \<and> drop (length ack - 4) ack = LD2450_CONFIG_FRAME_FOOTER \<longrightarrow>
      ack ! 7 \<noteq> 0x01 \<or> ack ! 8 \<noteq> 0x00 \<or> ack ! 9 \<noteq> 0x00)"
proof (intro conjI impI)
  assume ok: "ld2450_validate_ack ack cmd = Some (ESP_OK, lg)"
  then have all: "10 \<le> length ack"
    "drop (length ack - 4) ack = LD2450_CONFIG_FRAME_FOOTER"
    "ack ! 7 = 0x01" "ack ! 8 = 0x00" "ack ! 9 = 0x00"
    using validate_ack_ok_iff [of ack cmd] by blast+
  show "14 \<le> length ack"
  proof (rule ccontr)
    assume "\<not> 14 \<le> length ack"
    then have "length ack < 14" by simp
    from footer_overlap [OF all(1) this all(2)] all(3-5) show False by simp
  qed
next
  assume "10 \<le> length ack \<and> length ack < 14
    \<and> drop (length ack - 4) ack = LD2450_CONFIG_FRAME_FOOTER"
  then show "ack ! 7 \<noteq> 0x01 \<or> ack ! 8 \<noteq> 0x00 \<or> ack ! 9 \<noteq> 0x00"
    using footer_overlap by blast
qed

theorem validate_ack_ok_needs_14_witness:
  "ld2450_validate_ack
      [0xFD, 0xFC, 0xFB, 0xFA, 0x04, 0x00, 0xFF, 0x01, 0x00, 0x00, 0x04, 0x03, 0x02, 0x01] 0x00FF
     = Some (ESP_OK, [])
   \<and> 14 \<le> length
      [0xFD, 0xFC, 0xFB, 0xFA, 0x04, 0x00, 0xFF, 0x01, 0x00, 0x00, 0x04, 0x03, 0x02, 0x01 :: byte]
   \<and> drop (12 - 4) [0xFD, 0xFC, 0xFB, 0xFA, 0x00, 0x00, 0xFF, 0x01, 0x04, 0x03, 0x02, 0x01]
        = LD2450_CONFIG_FRAME_FOOTER
   \<and> [0xFD, 0xFC, 0xFB, 0xFA, 0x00, 0x00, 0xFF, 0x01, 0x04, 0x03, 0x02, 0x01 :: byte] ! 8 \<noteq> 0x00"
  using validate_ack_ok_needs_14 [of
      "[0xFD, 0xFC, 0xFB, 0xFA, 0x04, 0x00, 0xFF, 0x01, 0x00, 0x00, 0x04, 0x03, 0x02, 0x01]"
      "0x00FF" "[]"]
    validate_ack_ok_needs_14 [of
      "[0xFD, 0xFC, 0xFB, 0xFA, 0x00, 0x00, 0xFF, 0x01, 0x04, 0x03, 0x02, 0x01]" "0x00FF" "[]"]
    validate_ack_eq [of
      "[0xFD, 0xFC, 0xFB, 0xFA, 0x04, 0x00, 0xFF, 0x01, 0x00, 0x00, 0x04, 0x03, 0x02, 0x01]" "0x00FF"]
  by (simp add: LD2450_CONFIG_FRAME_HEADER_def LD2450_CONFIG_FRAME_FOOTER_def)


subsection \<open>The waiting loop\<close>

lemma length_write_at: "off + length src \<le> length b \<Longrightarrow> length (write_at b off src) = length b"
  by (simp add: write_at_def)

lemma take_write_at0: "length src \<le> length b \<Longrightarrow> n \<le> length src \<Longrightarrow> take n (write_at b 0 src) = take n src"
  by (simp add: write_at_def)

lemma headers_differ: "LD2450_DATA_FRAME_HEADER \<noteq> LD2450_CONFIG_FRAME_HEADER"
  by (simp add: LD2450_DATA_FRAME_HEADER_def LD2450_CONFIG_FRAME_HEADER_def)

lemma on_uart_data_telemetry:
  assumes nh: "\<not> found_header w" and i0: "idx w = 0"
    and cap: "4 \<le> LD2450_ACK_BUFFER_SIZE P" "length (buf w) = LD2450_ACK_BUFFER_SIZE P"
    and tele: "take 4 rx = LD2450_DATA_FRAME_HEADER"
  shows "on_uart_data P cmd (length rx) rx w
           = w\<lparr>buf := write_at (buf w) 0 (take (LD2450_ACK_BUFFER_SIZE P) rx), idx := 0\<rparr>"
proof -
  have len: "4 \<le> length rx" using tele len_magic(3) by (metis length_take min.cobounded1)
  let ?got = "take (min (length rx) (LD2450_ACK_BUFFER_SIZE P)) rx"
  have g: "?got = take (LD2450_ACK_BUFFER_SIZE P) rx" by (simp add: min_def)
  have lg: "4 \<le> length ?got" using len cap by simp
  have "take 4 (write_at (buf w) 0 ?got) = take 4 ?got"
    using lg cap by (intro take_write_at0) simp_all
  also have "\<dots> = take 4 rx" using cap len by (simp add: min_def)
  finally have h: "take 4 (write_at (buf w) 0 ?got) = LD2450_DATA_FRAME_HEADER" using tele by simp
  show ?thesis
    unfolding on_uart_data_def Let_def using nh i0 lg h g len by auto
qed

lemma validate_ok_parts:
  assumes "ld2450_validate_ack ack cmd = Some (ESP_OK, lg)"
  shows "14 \<le> length ack" "take 4 ack = LD2450_CONFIG_FRAME_HEADER"
    "drop (length ack - 4) ack = LD2450_CONFIG_FRAME_FOOTER"
    "(ucast (ack ! 6) :: 16 word) = cmd AND 0xFF" "ack ! 7 = 0x01"
proof -
  have a: "10 \<le> length ack \<and> take 4 ack = LD2450_CONFIG_FRAME_HEADER
      \<and> drop (length ack - 4) ack = LD2450_CONFIG_FRAME_FOOTER
      \<and> ack ! 6 = ucast cmd \<and> ack ! 7 = 0x01 \<and> ack ! 8 = 0x00 \<and> ack ! 9 = 0x00"
    using assms validate_ack_ok_iff [of ack cmd] by blast
  then show "take 4 ack = LD2450_CONFIG_FRAME_HEADER"
    "drop (length ack - 4) ack = LD2450_CONFIG_FRAME_FOOTER" "ack ! 7 = 0x01"
    by simp_all
  show "(ucast (ack ! 6) :: 16 word) = cmd AND 0xFF" using a by (simp add: low_byte_eq)
  show "14 \<le> length ack"
  proof (rule ccontr)
    assume "\<not> 14 \<le> length ack"
    then have "length ack < 14" by simp
    with footer_overlap [of ack] a show False by simp
  qed
qed

lemma on_uart_data_ack:
  assumes nh: "\<not> found_header w" and i0: "idx w = 0"
    and cap: "length (buf w) = LD2450_ACK_BUFFER_SIZE P" "length ack \<le> LD2450_ACK_BUFFER_SIZE P"
    and ok: "ld2450_validate_ack ack cmd = Some (ESP_OK, lg)"
  shows "on_uart_data P cmd (length ack) ack w
           = w\<lparr>buf := write_at (buf w) 0 ack, idx := length ack, found_header := True,
               found_cmd_echo := True, found_footer := True\<rparr>"
proof -
  note p = validate_ok_parts [OF ok]
  let ?b = "write_at (buf w) 0 ack"
  have t: "take (length ack) ?b = ack" using cap by (simp add: write_at_def)
  have t4: "take 4 ?b = take 4 ack" using cap p(1) by (intro take_write_at0) simp_all
  have n6: "?b ! 6 = ack ! 6" "?b ! 7 = ack ! 7"
    using p(1) by (simp_all add: write_at_def nth_append)
  have f: "take 4 (drop (length ack - 4) ?b) = drop (length ack - 4) ack"
    using p(1) cap by (simp add: write_at_def)
  have m: "min (length ack) (LD2450_ACK_BUFFER_SIZE P) = length ack" using cap by simp
  have pos: "0 < length ack" using p(1) by auto
  let ?w1 = "w\<lparr>buf := ?b, idx := length ack\<rparr>"
  have h: "look_for_header ?w1 = ?w1\<lparr>found_header := True\<rparr>"
    using nh p t4 by (simp add: look_for_header_def)
  have e: "look_for_echo cmd (?w1\<lparr>found_header := True\<rparr>)
             = ?w1\<lparr>found_header := True, found_cmd_echo := True\<rparr>"
    using p n6 by (simp add: look_for_echo_def)
  have fo: "look_for_footer (?w1\<lparr>found_header := True, found_cmd_echo := True\<rparr>)
             = ?w1\<lparr>found_header := True, found_cmd_echo := True, found_footer := True\<rparr>"
    using p f by (simp add: look_for_footer_def)
  have tele: "take 4 ?b \<noteq> LD2450_DATA_FRAME_HEADER"
    using t4 p(2) headers_differ by simp
  show ?thesis
    unfolding on_uart_data_def Let_def
    using nh i0 m pos tele h e fo by simp
qed

lemma await_ack_resync:
  assumes cap: "length ack \<le> LD2450_ACK_BUFFER_SIZE P"
    and ok: "ld2450_validate_ack ack cmd = Some (ESP_OK, lg)"
    and ta: "ta < T"
  shows "list_all (telemetry_read T) ps \<Longrightarrow> \<not> found_header w \<Longrightarrow> \<not> found_footer w \<Longrightarrow> idx w = 0
     \<Longrightarrow> length (buf w) = LD2450_ACK_BUFFER_SIZE P
     \<Longrightarrow> \<exists>b. await_ack P cmd T (ps @ (ta, UART_DATA (length ack) ack) # rest) w
           = w\<lparr>buf := b, idx := length ack, found_header := True,
               found_cmd_echo := True, found_footer := True\<rparr>
         \<and> take (length ack) b = ack"
proof (induction ps arbitrary: w)
  case Nil
  have c14: "14 \<le> length ack" using validate_ok_parts(1) [OF ok] .
  have pos: "0 < LD2450_ACK_BUFFER_SIZE P" using cap c14 by simp
  have "take (length ack) (write_at (buf w) 0 ack) = ack"
    using cap Nil by (simp add: write_at_def)
  then show ?case
    using Nil ta pos on_uart_data_ack [OF Nil(2) Nil(4) Nil(5) cap ok] by auto
next
  case (Cons p ps)
  obtain t ev where p: "p = (t, ev)" by (cases p)
  from Cons.prems(1) p obtain rx where ev: "ev = UART_DATA (length rx) rx"
    and tele: "take 4 rx = LD2450_DATA_FRAME_HEADER" and t: "t < T"
    by (auto simp: telemetry_read_def split: uart_event.splits)
  have c14: "14 \<le> length ack" using validate_ok_parts(1) [OF ok] .
  have cap4: "4 \<le> LD2450_ACK_BUFFER_SIZE P" using cap c14 by simp
  let ?w = "w\<lparr>buf := write_at (buf w) 0 (take (LD2450_ACK_BUFFER_SIZE P) rx), idx := 0\<rparr>"
  have step: "on_uart_data P cmd (length rx) rx w = ?w"
    using on_uart_data_telemetry [OF Cons.prems(2) Cons.prems(4) cap4 Cons.prems(5) tele] .
  have lenw: "length (buf ?w) = LD2450_ACK_BUFFER_SIZE P"
    using Cons.prems(5) by (simp add: length_write_at)
  have "\<exists>b. await_ack P cmd T (ps @ (ta, UART_DATA (length ack) ack) # rest) ?w
           = ?w\<lparr>buf := b, idx := length ack, found_header := True,
               found_cmd_echo := True, found_footer := True\<rparr>
         \<and> take (length ack) b = ack"
    using Cons.prems lenw by (intro Cons.IH) simp_all
  then show ?case
    using p ev t step cap4 Cons.prems by auto
qed


lemma look_for_header_inv: "wait_inv P w \<Longrightarrow> wait_inv P (look_for_header w)"
  by (simp add: wait_inv_def look_for_header_def)

lemma look_for_echo_inv: "wait_inv P w \<Longrightarrow> wait_inv P (look_for_echo cmd w)"
  by (simp add: wait_inv_def look_for_echo_def)

lemma look_for_footer_inv: "wait_inv P w \<Longrightarrow> wait_inv P (look_for_footer w)"
  by (simp add: wait_inv_def look_for_footer_def)

lemma on_uart_data_inv:
  assumes "wait_inv P w"
  shows "wait_inv P (on_uart_data P cmd n rx w)"
proof -
  let ?got = "take (min n (LD2450_ACK_BUFFER_SIZE P - idx w)) rx"
  let ?w0 = "w\<lparr>buf := write_at (buf w) (idx w) ?got\<rparr>"
  have fit: "idx w + length ?got \<le> length (buf w)"
    using assms by (auto simp add: wait_inv_def)
  have a: "wait_inv P (?w0\<lparr>idx := 0\<rparr>)"
    using assms fit by (simp add: wait_inv_def length_write_at)
  have b: "wait_inv P (?w0\<lparr>idx := idx ?w0 + length ?got\<rparr>)"
    using assms fit by (simp add: wait_inv_def length_write_at)
  show ?thesis
    unfolding on_uart_data_def Let_def
    using assms a look_for_footer_inv [OF look_for_echo_inv [OF look_for_header_inv [OF b]]]
    by (simp del: length_take)
qed

lemma await_ack_inv:
  "wait_inv P w \<Longrightarrow> wait_inv P (await_ack P cmd T ps w)"
proof (induction ps arbitrary: w)
  case Nil
  then show ?case by simp
next
  case (Cons p ps)
  obtain t ev where p: "p = (t, ev)" by (cases p)
  let ?w = "case ev of UART_DATA n rx \<Rightarrow> on_uart_data P cmd n rx w | _ \<Rightarrow> w"
  have i: "wait_inv P ?w"
    using Cons.prems by (cases ev) (simp_all add: on_uart_data_inv)
  show ?case
    using p Cons.prems i Cons.IH [OF i] by (simp add: Let_def)
qed

lemma wait0_inv: "length b = LD2450_ACK_BUFFER_SIZE P \<Longrightarrow> wait_inv P (wait0 b)"
  by (simp add: wait_inv_def wait0_def)

lemma found_footer_header:
  assumes "length b = LD2450_ACK_BUFFER_SIZE P"
  shows "found_footer (await_ack P cmd T ps (wait0 b)) \<Longrightarrow> found_header (await_ack P cmd T ps (wait0 b))"
    and "idx (await_ack P cmd T ps (wait0 b)) \<le> length (buf (await_ack P cmd T ps (wait0 b)))"
  using await_ack_inv [OF wait0_inv [OF assms], of cmd T ps] by (simp_all add: wait_inv_def)

lemma send_command_busy:
  assumes "initialized s" "\<not> lock_granted (next_env s)"
  shows "ld2450_send_command P cmd val want_ack timeout_ms s
           = ((ESP_ERR_TIMEOUT, None), s\<lparr>script := tl (script s)\<rparr>)"
  using assms by (simp add: ld2450_send_command_def Let_def)

lemma send_command_timeout:
  assumes init: "initialized s" and cap: "length (ack_buffer s) = LD2450_ACK_BUFFER_SIZE P"
    and lock: "lock_granted (next_env s)"
    and wr: "uart_write_bytes (next_env s) (length (build_command_packet cmd val))
               = int (length (build_command_packet cmd val))"
    and w: "w = await_ack P cmd (pdMS_TO_TICKS P timeout_ms) (polls (next_env s))
                  (wait0 (ack_buffer s))"
    and nf: "\<not> found_footer w"
  shows "fst (ld2450_send_command P cmd val want_ack timeout_ms s) = (ESP_ERR_TIMEOUT, None)"
    and "last_error_data (snd (ld2450_send_command P cmd val want_ack timeout_ms s))
           = take (LD2450_ERROR_BUFFER_SIZE P) (take (idx w) (buf w))"
    and "\<not> mutex_taken (snd (ld2450_send_command P cmd val want_ack timeout_ms s))"
    and "effects (snd (ld2450_send_command P cmd val want_ack timeout_ms s))
           = effects s @ [Uart_flush, Queue_drain, Uart_write (build_command_packet cmd val)]"
    and "in_config_mode (snd (ld2450_send_command P cmd val want_ack timeout_ms s)) = in_config_mode s"
proof -
  have le: "idx w \<le> length (buf w)"
    using found_footer_header(2) [OF cap] w by simp
  show "fst (ld2450_send_command P cmd val want_ack timeout_ms s) = (ESP_ERR_TIMEOUT, None)"
    using init lock wr nf w by (simp add: ld2450_send_command_def Let_def)
  show "\<not> mutex_taken (snd (ld2450_send_command P cmd val want_ack timeout_ms s))"
    using init lock wr nf w by (simp add: ld2450_send_command_def Let_def)
  show "effects (snd (ld2450_send_command P cmd val want_ack timeout_ms s))
           = effects s @ [Uart_flush, Queue_drain, Uart_write (build_command_packet cmd val)]"
    using init lock wr nf w by (simp add: ld2450_send_command_def Let_def)
  show "in_config_mode (snd (ld2450_send_command P cmd val want_ack timeout_ms s)) = in_config_mode s"
    using init lock wr nf w by (simp add: ld2450_send_command_def Let_def)
  show "last_error_data (snd (ld2450_send_command P cmd val want_ack timeout_ms s))
           = take (LD2450_ERROR_BUFFER_SIZE P) (take (idx w) (buf w))"
    using init lock wr nf w le
    by (simp add: ld2450_send_command_def Let_def last_error_data_def write_at_def min_def)
qed

lemma send_command_candidate:
  assumes init: "initialized s"
    and lock: "lock_granted (next_env s)"
    and wr: "uart_write_bytes (next_env s) (length (build_command_packet cmd val))
               = int (length (build_command_packet cmd val))"
    and w: "w = await_ack P cmd (pdMS_TO_TICKS P timeout_ms) (polls (next_env s))
                  (wait0 (ack_buffer s))"
    and fh: "found_header w" and ff: "found_footer w"
  shows "ld2450_send_command P cmd val want_ack timeout_ms s =
           (((case ld2450_validate_ack (take (idx w) (buf w)) cmd of
                Some (r, lg) \<Rightarrow> r | None \<Rightarrow> ESP_FAIL),
             (if want_ack then Some (take (idx w) (buf w)) else None)),
            s\<lparr>script := tl (script s), mutex_taken := False,
              effects := effects s @ [Uart_flush, Queue_drain, Uart_write (build_command_packet cmd val)],
              ack_buffer := buf w\<rparr>)"
  using init lock wr fh ff w by (simp add: ld2450_send_command_def Let_def)

lemma send_command_resync:
  assumes init: "initialized s" and cap: "length (ack_buffer s) = LD2450_ACK_BUFFER_SIZE P"
    and lock: "lock_granted (next_env s)"
    and wr: "uart_write_bytes (next_env s) (length (build_command_packet cmd val))
               = int (length (build_command_packet cmd val))"
    and ps: "polls (next_env s) = ps @ (ta, UART_DATA (length ack) ack) # rest"
    and tele: "list_all (telemetry_read (pdMS_TO_TICKS P timeout_ms)) ps"
    and ta: "ta < pdMS_TO_TICKS P timeout_ms"
    and fit: "length ack \<le> LD2450_ACK_BUFFER_SIZE P"
    and ok: "ld2450_validate_ack ack cmd = Some (ESP_OK, lg)"
  shows "fst (ld2450_send_command P cmd val want_ack timeout_ms s)
           = (ESP_OK, if want_ack then Some ack else None)"
proof -
  define w where "w = await_ack P cmd (pdMS_TO_TICKS P timeout_ms) (polls (next_env s))
                  (wait0 (ack_buffer s))"
  have w0: "\<not> found_header (wait0 (ack_buffer s))" "\<not> found_footer (wait0 (ack_buffer s))"
    "idx (wait0 (ack_buffer s)) = 0" "length (buf (wait0 (ack_buffer s))) = LD2450_ACK_BUFFER_SIZE P"
    using cap by (simp_all add: wait0_def)
  obtain b where b: "w = (wait0 (ack_buffer s))\<lparr>buf := b, idx := length ack, found_header := True,
               found_cmd_echo := True, found_footer := True\<rparr>" "take (length ack) b = ack"
    using await_ack_resync [OF fit ok ta tele w0, of rest] ps w_def by auto
  have "found_header w" "found_footer w" "take (idx w) (buf w) = ack"
    using b by simp_all
  then show ?thesis
    using send_command_candidate [OF init lock wr w_def, of want_ack] ok by simp
qed

lemma on_uart_data_discard:
  assumes "\<not> found_header w"
    and "got = take (min n (LD2450_ACK_BUFFER_SIZE P - idx w)) rx"
    and "0 < length got" and "4 \<le> idx w + length got"
    and "take 4 (write_at (buf w) (idx w) got) = LD2450_DATA_FRAME_HEADER"
  shows "on_uart_data P cmd n rx w = w\<lparr>buf := write_at (buf w) (idx w) got, idx := 0\<rparr>"
  using assms unfolding on_uart_data_def Let_def by (simp del: length_take)


subsection \<open>The gate and the operations\<close>

lemma send_command_keeps:
  "initialized (snd (ld2450_send_command P cmd val want_ack timeout_ms s)) = initialized s"
  "in_config_mode (snd (ld2450_send_command P cmd val want_ack timeout_ms s)) = in_config_mode s"
  by (simp_all add: ld2450_send_command_def Let_def)

lemma send_command_keeps_length:
  assumes "length (ack_buffer s) = LD2450_ACK_BUFFER_SIZE P"
  shows "length (ack_buffer (snd (ld2450_send_command P cmd val want_ack timeout_ms s)))
           = LD2450_ACK_BUFFER_SIZE P"
proof -
  have "length (buf (await_ack P cmd T ps (wait0 (ack_buffer s)))) = LD2450_ACK_BUFFER_SIZE P" for T ps
    using await_ack_inv [OF wait0_inv [OF assms], of cmd T ps] by (simp add: wait_inv_def)
  then show ?thesis using assms
    by (simp add: ld2450_send_command_def Let_def)
qed



lemma enter_flag:
  assumes "initialized s"
  shows "in_config_mode (snd (ld2450_enter_config_mode P s))
           = (in_config_mode s \<or> fst (ld2450_enter_config_mode P s) = ESP_OK)"
  using assms
  by (simp add: ld2450_enter_config_mode_def Let_def split_def send_command_keeps)


lemma enter_keeps_initialized:
  "initialized (snd (ld2450_enter_config_mode P s)) = initialized s"
  by (simp add: ld2450_enter_config_mode_def Let_def split_def send_command_keeps)






lemma bracket_set_tracking_mode:
  "initialized s \<Longrightarrow> bracket_law P (ld2450_set_tracking_mode P mode) (set_tracking_mode_body P mode) s"
  by (simp add: bracket_law_def ld2450_set_tracking_mode_def Let_def split_def)

lemma bracket_get_tracking_mode:
  "initialized s \<Longrightarrow> bracket_law P (\<lambda>s. code_of (ld2450_get_tracking_mode P s))
      (\<lambda>s. code_of (get_tracking_mode_body P s)) s"
  by (simp add: bracket_law_def ld2450_get_tracking_mode_def Let_def split_def code_of_def)

lemma bracket_get_firmware_version:
  "initialized s \<Longrightarrow> bracket_law P (\<lambda>s. code_of (ld2450_get_firmware_version P s))
      (\<lambda>s. code_of (get_firmware_version_body P s)) s"
  by (simp add: bracket_law_def ld2450_get_firmware_version_def Let_def split_def code_of_def)

lemma bracket_set_baud_rate:
  "initialized s \<Longrightarrow> LD2450_BAUD_9600 P \<le> b \<Longrightarrow> b \<le> LD2450_BAUD_460800 P \<Longrightarrow>
   bracket_law P (ld2450_set_baud_rate P b) (set_baud_rate_body P b) s"
  by (simp add: bracket_law_def ld2450_set_baud_rate_def Let_def split_def)

lemma bracket_restore_factory_settings:
  "initialized s \<Longrightarrow> bracket_law P (ld2450_restore_factory_settings P) (restore_factory_settings_body P) s"
  by (simp add: bracket_law_def ld2450_restore_factory_settings_def Let_def split_def)

lemma bracket_set_bluetooth:
  "initialized s \<Longrightarrow> bracket_law P (ld2450_set_bluetooth P en) (set_bluetooth_body P en) s"
  by (simp add: bracket_law_def ld2450_set_bluetooth_def Let_def split_def)

lemma bracket_get_mac_address:
  "initialized s \<Longrightarrow> bracket_law P (\<lambda>s. code_of (ld2450_get_mac_address P s))
      (\<lambda>s. code_of (get_mac_address_body P s)) s"
  by (simp add: bracket_law_def ld2450_get_mac_address_def Let_def split_def code_of_def)

lemma bracket_set_region_filter:
  "initialized s \<Longrightarrow> bracket_law P (ld2450_set_region_filter P ft rs) (set_region_filter_body P ft rs) s"
  by (simp add: bracket_law_def ld2450_set_region_filter_def Let_def split_def)

lemma bracket_get_region_filter:
  "initialized s \<Longrightarrow> bracket_law P (\<lambda>s. code_of (ld2450_get_region_filter P s))
      (\<lambda>s. code_of (get_region_filter_body P s)) s"
  by (simp add: bracket_law_def ld2450_get_region_filter_def Let_def split_def code_of_def)

lemma restart_module_cases:
  assumes "initialized s"
  shows "fst (ld2450_enter_config_mode P s) \<noteq> ESP_OK \<Longrightarrow>
           ld2450_restart_module P s = ld2450_enter_config_mode P s"
    and "fst (ld2450_enter_config_mode P s) = ESP_OK \<Longrightarrow>
         fst (restart_module_body P (snd (ld2450_enter_config_mode P s))) = ESP_OK \<Longrightarrow>
           ld2450_restart_module P s =
             (ESP_OK, (snd (restart_module_body P (snd (ld2450_enter_config_mode P s))))
                \<lparr>effects := effects (snd (restart_module_body P (snd (ld2450_enter_config_mode P s))))
                     @ [Task_delay (pdMS_TO_TICKS P (LD2450_RESTART_TIMEOUT_MS P))],
                 in_config_mode := False\<rparr>)"
    and "fst (ld2450_enter_config_mode P s) = ESP_OK \<Longrightarrow>
         fst (restart_module_body P (snd (ld2450_enter_config_mode P s))) \<noteq> ESP_OK \<Longrightarrow>
           ld2450_restart_module P s =
             (fst (restart_module_body P (snd (ld2450_enter_config_mode P s))),
              snd (ld2450_exit_config_mode P
                     (snd (restart_module_body P (snd (ld2450_enter_config_mode P s))))))"
  using assms
  by (simp_all add: ld2450_restart_module_def Let_def split_def)

lemma restart_body_keeps:
  "initialized (snd (restart_module_body P s)) = initialized s"
  "in_config_mode (snd (restart_module_body P s)) = in_config_mode s"
  by (simp_all add: restart_module_body_def Let_def split_def send_command_keeps)

lemma fw_attempts_Suc:
  "fw_attempts P (Suc k) ret s =
     (if fw_good (fst (fw_attempt P s)) then fw_parsed P (fw_attempt P s)
      else fw_attempts P k (fst (fst (fw_attempt P s))) (fw_backoff P (snd (fw_attempt P s))))"
  by (simp add: fw_attempt_def fw_good_def fw_backoff_def fw_parsed_def Let_def split_def)

lemma fw_attempts_3:
  "fw_attempts P 3 ret s =
     (let a1 = fw_attempt P s in
      if fw_good (fst a1) then fw_parsed P a1
      else
        let a2 = fw_attempt P (fw_backoff P (snd a1)) in
        if fw_good (fst a2) then fw_parsed P a2
        else
          let a3 = fw_attempt P (fw_backoff P (snd a2)) in
          if fw_good (fst a3) then fw_parsed P a3
          else ((fst (fst a3), None), fw_backoff P (snd a3)))"
proof -
  have "fw_attempts P 3 ret s = fw_attempts P (Suc (Suc (Suc 0))) ret s"
    by (simp add: numeral_3_eq_3)
  then show ?thesis
    by (simp only: fw_attempts_Suc fw_attempts.simps(1) Let_def)
qed

lemma parse_firmware_version_example:
  assumes "a ! 12 = 0x02" "a ! 13 = 0x01" "a ! 14 = 0x16" "a ! 15 = 0x24" "a ! 16 = 0x06" "a ! 17 = 0x22"
    and "7 \<le> VERSION_STRING_SIZE P"
  shows "main_version (parse_firmware_version P a) = 0x0102"
    and "sub_version (parse_firmware_version P a) = 0x22062416"
    and "take 6 (version_string (parse_firmware_version P a)) = ''V1.02.''"
proof -
  have m: "le16 a 12 = 0x0102" using assms by (simp add: le16_def)
  show "main_version (parse_firmware_version P a) = 0x0102"
    using m by (simp add: parse_firmware_version_def Let_def)
  show "sub_version (parse_firmware_version P a) = 0x22062416"
    using assms by (simp add: parse_firmware_version_def Let_def)
  have hi: "unat (drop_bit 8 (0x0102 :: 16 word) AND 0xFF) = 1" by simp
  have lo: "unat ((0x0102 :: 16 word) AND 0xFF) = 2" by simp
  have d1: "dec 1 = ''1''" and d2: "dec 2 = ''2''" by (simp_all add: dec.simps)
  have pre: "''V'' @ dec 1 @ ''.'' @ pad0 2 (dec 2) @ ''.'' @ rest = ''V1.02.'' @ rest" for rest
    unfolding d1 d2 by (simp add: pad0_def)
  have "take 6 (format_version (VERSION_STRING_SIZE P) 0x0102 subv) = ''V1.02.''" for subv
    unfolding format_version_def hi lo pre using assms(7) by (simp add: min_def)
  then show "take 6 (version_string (parse_firmware_version P a)) = ''V1.02.''"
    using m by (simp add: parse_firmware_version_def Let_def)
qed

lemma send_command_script:
  "initialized s \<Longrightarrow> script (snd (ld2450_send_command P cmd val want_ack timeout_ms s)) = tl (script s)"
  by (simp add: ld2450_send_command_def Let_def)

lemma polls_reads_env1: "polls (reads_env [r]) = [] @ (0, UART_DATA (length r) r) # []"
  by (simp add: reads_env_def)

lemma send_command_on_ack:
  assumes "initialized s" and "length (ack_buffer s) = LD2450_ACK_BUFFER_SIZE P"
    and "script s = reads_env [ack] # es"
    and "length ack \<le> LD2450_ACK_BUFFER_SIZE P"
    and "ld2450_validate_ack ack cmd = Some (ESP_OK, lg)"
    and "0 < pdMS_TO_TICKS P timeout_ms"
  shows "fst (ld2450_send_command P cmd val want_ack timeout_ms s)
           = (ESP_OK, if want_ack then Some ack else None)"
proof -
  have ne: "next_env s = reads_env [ack]" using assms(3) by (simp add: next_env_def)
  have l: "lock_granted (next_env s)" unfolding ne by (simp add: reads_env_def)
  have w: "uart_write_bytes (next_env s) (length (build_command_packet cmd val))
               = int (length (build_command_packet cmd val))"
    unfolding ne by (simp add: reads_env_def uart_write_bytes_def)
  have p: "polls (next_env s) = [] @ (0, UART_DATA (length ack) ack) # []"
    unfolding ne by (rule polls_reads_env1)
  show ?thesis
    by (rule send_command_resync [OF assms(1,2) l w p _ assms(6) assms(4) assms(5)]) simp
qed

lemma send_command_on_quiet:
  assumes "initialized s" and "length (ack_buffer s) = LD2450_ACK_BUFFER_SIZE P"
    and "script s = quiet_env # es"
  shows "fst (ld2450_send_command P cmd val want_ack timeout_ms s) = (ESP_ERR_TIMEOUT, None)"
proof -
  have ne: "next_env s = quiet_env" using assms(3) by (simp add: next_env_def)
  have l: "lock_granted (next_env s)" unfolding ne by (simp add: quiet_env_def)
  have w: "uart_write_bytes (next_env s) (length (build_command_packet cmd val))
               = int (length (build_command_packet cmd val))"
    unfolding ne by (simp add: quiet_env_def uart_write_bytes_def)
  have f: "\<not> found_footer (await_ack P cmd (pdMS_TO_TICKS P timeout_ms) (polls (next_env s))
                  (wait0 (ack_buffer s)))"
    unfolding ne by (simp add: quiet_env_def wait0_def)
  show ?thesis
    by (rule send_command_timeout(1) [OF assms(1,2) l w refl f])
qed

lemma ready_after_send:
  "ready P s (e # es) \<Longrightarrow> ready P (snd (ld2450_send_command P cmd val want_ack timeout_ms s)) es"
  by (simp add: ready_def send_command_keeps send_command_keeps_length send_command_script)

lemma ready_effects [simp]: "ready P (s\<lparr>effects := x\<rparr>) envs = ready P s envs"
  by (simp add: ready_def)

lemma ready_in_config_mode [simp]: "ready P (s\<lparr>in_config_mode := x\<rparr>) envs = ready P s envs"
  by (simp add: ready_def)

lemma enter_on_ack:
  assumes r: "ready P s (reads_env [ack] # es)" and n: "\<not> in_config_mode s"
    and fit: "length ack \<le> LD2450_ACK_BUFFER_SIZE P"
    and ok: "ld2450_validate_ack ack (LD2450_CMD_ENABLE_CONFIG P) = Some (ESP_OK, lg)"
    and t: "0 < pdMS_TO_TICKS P (LD2450_CONFIG_TIMEOUT_MS P)"
  shows "fst (ld2450_enter_config_mode P s) = ESP_OK"
    and "ready P (snd (ld2450_enter_config_mode P s)) es"
    and "in_config_mode (snd (ld2450_enter_config_mode P s))"
proof -
  let ?s1 = "s\<lparr>in_config_mode := True,
                effects := effects s @ [Task_delay (pdMS_TO_TICKS P 50), Uart_flush]\<rparr>"
  let ?r = "ld2450_send_command P (LD2450_CMD_ENABLE_CONFIG P) [0x01, 0x00] False
              (LD2450_CONFIG_TIMEOUT_MS P) ?s1"
  have r1: "ready P ?s1 (reads_env [ack] # es)" using r by simp
  have f: "fst ?r = (ESP_OK, None)"
    using send_command_on_ack [of ?s1 P ack es _ lg _ "[0x01, 0x00]" False] r1 fit ok t
    by (simp add: ready_def)
  have i: "initialized s" using r by (simp add: ready_def)
  have e: "ld2450_enter_config_mode P s = (ESP_OK, snd ?r)"
    using i n f by (simp add: ld2450_enter_config_mode_def Let_def split_def)
  show "fst (ld2450_enter_config_mode P s) = ESP_OK" using e by simp
  show "ready P (snd (ld2450_enter_config_mode P s)) es"
    using e ready_after_send [OF r1] by simp
  show "in_config_mode (snd (ld2450_enter_config_mode P s))"
    using e by (simp add: send_command_keeps)
qed

lemma exit_on_ack:
  assumes r: "ready P s (reads_env [ack] # es)" and n: "in_config_mode s"
    and fit: "length ack \<le> LD2450_ACK_BUFFER_SIZE P"
    and ok: "ld2450_validate_ack ack (LD2450_CMD_END_CONFIG P) = Some (ESP_OK, lg)"
    and t: "0 < pdMS_TO_TICKS P (LD2450_CONFIG_TIMEOUT_MS P)"
  shows "fst (ld2450_exit_config_mode P s) = ESP_OK"
    and "ready P (snd (ld2450_exit_config_mode P s)) es"
    and "\<not> in_config_mode (snd (ld2450_exit_config_mode P s))"
proof -
  let ?r = "ld2450_send_command P (LD2450_CMD_END_CONFIG P) [] False
              (LD2450_CONFIG_TIMEOUT_MS P) s"
  have f: "fst ?r = (ESP_OK, None)"
    using send_command_on_ack [of s P ack es _ lg _ "[]" False] r fit ok t
    by (simp add: ready_def)
  have i: "initialized s" using r by (simp add: ready_def)
  have e: "ld2450_exit_config_mode P s = (ESP_OK, (snd ?r)\<lparr>in_config_mode := False\<rparr>)"
    using i n f by (simp add: ld2450_exit_config_mode_def Let_def split_def)
  show "fst (ld2450_exit_config_mode P s) = ESP_OK" using e by simp
  show "ready P (snd (ld2450_exit_config_mode P s)) es"
    using e ready_after_send [OF r] by simp
  show "\<not> in_config_mode (snd (ld2450_exit_config_mode P s))"
    using e by simp
qed

lemma fw_attempt_on_quiet:
  assumes "ready P s (quiet_env # es)"
  shows "\<not> fw_good (fst (fw_attempt P s))"
    and "ready P (fw_backoff P (snd (fw_attempt P s))) es"
    and "in_config_mode (fw_backoff P (snd (fw_attempt P s))) = in_config_mode s"
proof -
  have "fst (fw_attempt P s) = (ESP_ERR_TIMEOUT, None)"
    unfolding fw_attempt_def using assms
    by (intro send_command_on_quiet) (simp_all add: ready_def)
  then show "\<not> fw_good (fst (fw_attempt P s))" by (simp add: fw_good_def)
  show "ready P (fw_backoff P (snd (fw_attempt P s))) es"
    unfolding fw_attempt_def fw_backoff_def using ready_after_send [OF assms] by simp
  show "in_config_mode (fw_backoff P (snd (fw_attempt P s))) = in_config_mode s"
    by (simp add: fw_attempt_def fw_backoff_def send_command_keeps)
qed

lemma fw_attempt_on_ack:
  assumes r: "ready P s (reads_env [fw] # es)"
    and fit: "22 \<le> length fw" "length fw \<le> LD2450_ACK_BUFFER_SIZE P"
    and ok: "ld2450_validate_ack fw (LD2450_CMD_READ_FW_VERSION P) = Some (ESP_OK, lg)"
    and t: "0 < pdMS_TO_TICKS P 1000"
  shows "fw_good (fst (fw_attempt P s))"
    and "fst (fw_parsed P (fw_attempt P s)) = (ESP_OK, Some (parse_firmware_version P fw))"
    and "ready P (snd (fw_parsed P (fw_attempt P s))) es"
    and "in_config_mode (snd (fw_parsed P (fw_attempt P s))) = in_config_mode s"
proof -
  have f: "fst (fw_attempt P s) = (ESP_OK, Some fw)"
    unfolding fw_attempt_def
    using send_command_on_ack [of s P fw es _ lg 1000 "[]" True] r fit ok t
    by (simp add: ready_def)
  then show "fw_good (fst (fw_attempt P s))" using fit by (simp add: fw_good_def ack_len_ge_def)
  show "fst (fw_parsed P (fw_attempt P s)) = (ESP_OK, Some (parse_firmware_version P fw))"
    using f by (simp add: fw_parsed_def)
  show "ready P (snd (fw_parsed P (fw_attempt P s))) es"
    unfolding fw_attempt_def fw_parsed_def using ready_after_send [OF r] by simp
  show "in_config_mode (snd (fw_parsed P (fw_attempt P s))) = in_config_mode s"
    by (simp add: fw_attempt_def fw_parsed_def send_command_keeps)
qed

lemma get_firmware_version_third_attempt:
  assumes r: "ready P s (reads_env [en] # quiet_env # quiet_env # reads_env [fw] # reads_env [ex] # es)"
    and n: "\<not> in_config_mode s"
    and en: "length en \<le> LD2450_ACK_BUFFER_SIZE P"
      "ld2450_validate_ack en (LD2450_CMD_ENABLE_CONFIG P) = Some (ESP_OK, lg1)"
    and fw: "22 \<le> length fw" "length fw \<le> LD2450_ACK_BUFFER_SIZE P"
      "ld2450_validate_ack fw (LD2450_CMD_READ_FW_VERSION P) = Some (ESP_OK, lg2)"
    and ex: "length ex \<le> LD2450_ACK_BUFFER_SIZE P"
      "ld2450_validate_ack ex (LD2450_CMD_END_CONFIG P) = Some (ESP_OK, lg3)"
    and t: "0 < pdMS_TO_TICKS P (LD2450_CONFIG_TIMEOUT_MS P)" "0 < pdMS_TO_TICKS P 1000"
  shows "fst (ld2450_get_firmware_version P s) = (ESP_OK, Some (parse_firmware_version P fw))"
proof -
  let ?e = "ld2450_enter_config_mode P s"
  note e = enter_on_ack [OF r n en t(1)]
  let ?s1 = "(snd ?e)\<lparr>effects := effects (snd ?e)
               @ [Task_delay (pdMS_TO_TICKS P 100), Uart_flush, Queue_drain]\<rparr>"
  have r1: "ready P ?s1 (quiet_env # quiet_env # reads_env [fw] # reads_env [ex] # es)"
    using e(2) by simp
  have c1: "in_config_mode ?s1" using e(3) by simp
  note a1 = fw_attempt_on_quiet [OF r1]
  let ?s2 = "fw_backoff P (snd (fw_attempt P ?s1))"
  note a2 = fw_attempt_on_quiet [OF a1(2)]
  let ?s3 = "fw_backoff P (snd (fw_attempt P ?s2))"
  note a3 = fw_attempt_on_ack [OF a2(2) fw t(2)]
  have loop: "fw_attempts P 3 ESP_OK ?s1 = fw_parsed P (fw_attempt P ?s3)"
    using a1(1) a2(1) a3(1) by (simp add: fw_attempts_3 Let_def)
  let ?b = "fw_parsed P (fw_attempt P ?s3)"
  have c3: "in_config_mode (snd ?b)" using a3(4) a2(3) a1(3) c1 by simp
  note x = exit_on_ack [OF a3(3) c3 ex t(1)]
  have body: "get_firmware_version_body P (snd ?e) = ?b"
    using loop a3(2) by (simp add: get_firmware_version_body_def Let_def split_def prod_eq_iff)
  have i: "initialized s" using r by (simp add: ready_def)
  show ?thesis
    using i e(1) body a3(2) x(1)
    by (simp add: ld2450_get_firmware_version_def Let_def split_def)
qed

subsection \<open>One transaction\<close>

text \<open>
  Claim C1, as amended. While the configuration header is not confirmed, a read that
  leaves the telemetry header AA FF 03 00 in the first four accumulated bytes resets the
  accumulation to empty. When every telemetry frame arrives as a read of its own, and
  then the well-formed acknowledgement of the command arrives whole in one read that
  fits the buffer, all before the deadline, the transaction succeeds and hands back
  exactly the bytes of the acknowledgement.
\<close>

theorem resync_aligned_reads:
  assumes "initialized s"
    and "length (ack_buffer s) = LD2450_ACK_BUFFER_SIZE P"
    and "lock_granted (next_env s)"
    and "uart_write_bytes (next_env s) (length (build_command_packet cmd val))
           = int (length (build_command_packet cmd val))"
    and "polls (next_env s) = ps @ (ta, UART_DATA (length ack) ack) # rest"
    and "list_all (telemetry_read (pdMS_TO_TICKS P timeout_ms)) ps"
    and "ta < pdMS_TO_TICKS P timeout_ms"
    and "length ack \<le> LD2450_ACK_BUFFER_SIZE P"
    and "ld2450_validate_ack ack cmd = Some (ESP_OK, lg)"
  shows "fst (ld2450_send_command P cmd val True timeout_ms s) = (ESP_OK, Some ack)
    \<and> (\<forall>w n rx got.
          \<not> found_header w
          \<and> got = take (min n (LD2450_ACK_BUFFER_SIZE P - idx w)) rx
          \<and> 0 < length got \<and> 4 \<le> idx w + length got
          \<and> take 4 (write_at (buf w) (idx w) got) = LD2450_DATA_FRAME_HEADER
          \<longrightarrow> idx (on_uart_data P cmd n rx w) = 0)"
  using send_command_resync [OF assms, of True] on_uart_data_discard [of _ _ _ P _ cmd]
  by simp

theorem resync_aligned_reads_witness:
  "fst (ld2450_send_command example_consts 0x00FF [0x01, 0x00] True 3000
          (example_state [reads_env [example_telemetry, example_telemetry, example_ack 0xFF]]))
     = (ESP_OK, Some (example_ack 0xFF))
   \<and> list_all (telemetry_read (pdMS_TO_TICKS example_consts 3000))
        [(0, UART_DATA 30 example_telemetry), (1, UART_DATA 30 example_telemetry)]
   \<and> ld2450_validate_ack (example_ack 0xFF) 0x00FF = Some (ESP_OK, [])"
proof -
  let ?s = "example_state [reads_env [example_telemetry, example_telemetry, example_ack 0xFF]]"
  let ?ps = "[(0, UART_DATA 30 example_telemetry), (1, UART_DATA 30 example_telemetry)]"
  have h1: "initialized ?s" by (simp add: example_state_def)
  have h2: "length (ack_buffer ?s) = LD2450_ACK_BUFFER_SIZE example_consts"
    by (simp add: example_state_def example_consts_def)
  have h3: "lock_granted (next_env ?s)"
    by (simp add: example_state_def next_env_def reads_env_def)
  have h4: "uart_write_bytes (next_env ?s) (length (build_command_packet 0x00FF [0x01, 0x00]))
           = int (length (build_command_packet 0x00FF [0x01, 0x00]))"
    by (simp add: example_state_def next_env_def reads_env_def uart_write_bytes_def)
  have h5: "polls (next_env ?s)
      = ?ps @ (2, UART_DATA (length (example_ack 0xFF)) (example_ack 0xFF)) # []"
    by code_simp
  have h6: "list_all (telemetry_read (pdMS_TO_TICKS example_consts 3000)) ?ps"
    by code_simp
  have h7: "2 < pdMS_TO_TICKS example_consts 3000" by (simp add: example_consts_def)
  have h8: "length (example_ack 0xFF) \<le> LD2450_ACK_BUFFER_SIZE example_consts"
    by (simp add: example_ack_def example_consts_def)
  have h9: "ld2450_validate_ack (example_ack 0xFF) 0x00FF = Some (ESP_OK, [])"
    by (simp add: validate_ack_eq example_ack_def LD2450_CONFIG_FRAME_HEADER_def
        LD2450_CONFIG_FRAME_FOOTER_def)
  from resync_aligned_reads [OF h1 h2 h3 h4 h5 h6 h7 h8 h9] h6 h9 show ?thesis by simp
qed

text \<open>
  The claim as first stated fails: the stream of one whole telemetry frame followed by a
  well-formed acknowledgement, all read long before the deadline, ends in
  \<open>ESP_ERR_TIMEOUT\<close> when a read boundary falls inside the telemetry frame, and also
  when the acknowledgement arrives in the same read as the frame.
\<close>

theorem resync_unaligned_reads_counterexample:
  "ld2450_validate_ack (example_ack 0xFF) 0x00FF = Some (ESP_OK, [])
   \<and> fst (ld2450_send_command example_consts 0x00FF [0x01, 0x00] True 3000
          (example_state [reads_env
             [take 8 example_telemetry, drop 8 example_telemetry, example_ack 0xFF]]))
       = (ESP_ERR_TIMEOUT, None)
   \<and> fst (ld2450_send_command example_consts 0x00FF [0x01, 0x00] True 3000
          (example_state [reads_env [example_telemetry @ example_ack 0xFF]]))
       = (ESP_ERR_TIMEOUT, None)"
  by code_simp

text \<open>
  Claim C6. Whenever the waiting loop ends without a candidate frame (the footer was not
  found when the deadline passed or the buffer was full), the transaction returns
  \<open>ESP_ERR_TIMEOUT\<close>, the diagnostic data are the bytes accumulated, cut to
  \<open>LD2450_ERROR_BUFFER_SIZE\<close>, whatever was captured before, and the mutex is released.
\<close>

theorem no_candidate_captured_and_timeout:
  assumes "initialized s"
    and "length (ack_buffer s) = LD2450_ACK_BUFFER_SIZE P"
    and "lock_granted (next_env s)"
    and "uart_write_bytes (next_env s) (length (build_command_packet cmd val))
           = int (length (build_command_packet cmd val))"
    and "w = await_ack P cmd (pdMS_TO_TICKS P timeout_ms) (polls (next_env s))
               (wait0 (ack_buffer s))"
    and "\<not> found_footer w"
  shows "fst (ld2450_send_command P cmd val want_ack timeout_ms s) = (ESP_ERR_TIMEOUT, None)
    \<and> last_error_data (snd (ld2450_send_command P cmd val want_ack timeout_ms s))
        = take (LD2450_ERROR_BUFFER_SIZE P) (take (idx w) (buf w))
    \<and> \<not> mutex_taken (snd (ld2450_send_command P cmd val want_ack timeout_ms s))"
  using send_command_timeout(1-3) [OF assms] by simp

theorem no_candidate_captured_and_timeout_witness:
  "fst (ld2450_send_command example_consts 0x00FF [0x01, 0x00] True 3000
          (example_state [reads_env [drop 8 example_telemetry, example_ack 0xFF]]))
     = (ESP_ERR_TIMEOUT, None)
   \<and> last_error_data (snd (ld2450_send_command example_consts 0x00FF [0x01, 0x00] True 3000
          (example_state [reads_env [drop 8 example_telemetry, example_ack 0xFF]])))
     = take 32 (drop 8 example_telemetry @ example_ack 0xFF)
   \<and> \<not> mutex_taken (snd (ld2450_send_command example_consts 0x00FF [0x01, 0x00] True 3000
          (example_state [reads_env [drop 8 example_telemetry, example_ack 0xFF]])))"
proof -
  let ?s = "example_state [reads_env [drop 8 example_telemetry, example_ack 0xFF]]"
  let ?w = "await_ack example_consts 0x00FF (pdMS_TO_TICKS example_consts 3000)
              (polls (next_env ?s)) (wait0 (ack_buffer ?s))"
  have h1: "initialized ?s" by (simp add: example_state_def)
  have h2: "length (ack_buffer ?s) = LD2450_ACK_BUFFER_SIZE example_consts"
    by (simp add: example_state_def example_consts_def)
  have h3: "lock_granted (next_env ?s)"
    by (simp add: example_state_def next_env_def reads_env_def)
  have h4: "uart_write_bytes (next_env ?s) (length (build_command_packet 0x00FF [0x01, 0x00]))
           = int (length (build_command_packet 0x00FF [0x01, 0x00]))"
    by (simp add: example_state_def next_env_def reads_env_def uart_write_bytes_def)
  have h6: "\<not> found_footer ?w" by code_simp
  have c: "take (LD2450_ERROR_BUFFER_SIZE example_consts) (take (idx ?w) (buf ?w))
             = take 32 (drop 8 example_telemetry @ example_ack 0xFF)"
    by code_simp
  from no_candidate_captured_and_timeout [OF h1 h2 h3 h4 refl h6, of True] c
  show ?thesis by simp
qed

text \<open>
  Claim C9, as amended. When the mutex is not obtained within the wait derived from the
  caller's timeout, the transaction fails with \<open>ESP_ERR_TIMEOUT\<close> before anything is
  written or any field of the instance is touched. The code is the one returned when
  no candidate frame arrives before the deadline: the returned value does not tell the
  two failures apart.
\<close>

theorem lock_timeout_same_code:
  "(initialized s \<and> \<not> lock_granted (next_env s) \<longrightarrow>
      ld2450_send_command P cmd val want_ack timeout_ms s
        = ((ESP_ERR_TIMEOUT, None), s\<lparr>script := tl (script s)\<rparr>))
   \<and> (initialized s \<and> length (ack_buffer s) = LD2450_ACK_BUFFER_SIZE P
        \<and> lock_granted (next_env s)
        \<and> uart_write_bytes (next_env s) (length (build_command_packet cmd val))
             = int (length (build_command_packet cmd val))
        \<and> \<not> found_footer (await_ack P cmd (pdMS_TO_TICKS P timeout_ms) (polls (next_env s))
               (wait0 (ack_buffer s))) \<longrightarrow>
      fst (ld2450_send_command P cmd val want_ack timeout_ms s) = (ESP_ERR_TIMEOUT, None))"
  using send_command_busy [of s P cmd val want_ack timeout_ms]
    send_command_timeout(1) [of s P cmd val _ timeout_ms want_ack]
  by blast

theorem lock_timeout_same_code_witness:
  "ld2450_send_command example_consts 0x00FF [0x01, 0x00] False 3000 (example_state [busy_env])
     = ((ESP_ERR_TIMEOUT, None), example_state [])
   \<and> fst (ld2450_send_command example_consts 0x00FF [0x01, 0x00] False 3000
          (example_state [quiet_env]))
     = (ESP_ERR_TIMEOUT, None)"
proof -
  have a: "initialized (example_state [busy_env])
      \<and> \<not> lock_granted (next_env (example_state [busy_env]))"
    by (simp add: example_state_def next_env_def busy_env_def)
  have b: "initialized (example_state [quiet_env])
      \<and> length (ack_buffer (example_state [quiet_env])) = LD2450_ACK_BUFFER_SIZE example_consts
      \<and> lock_granted (next_env (example_state [quiet_env]))
      \<and> uart_write_bytes (next_env (example_state [quiet_env]))
           (length (build_command_packet 0x00FF [0x01, 0x00]))
          = int (length (build_command_packet 0x00FF [0x01, 0x00]))
      \<and> \<not> found_footer (await_ack example_consts 0x00FF (pdMS_TO_TICKS example_consts 3000)
             (polls (next_env (example_state [quiet_env])))
             (wait0 (ack_buffer (example_state [quiet_env]))))"
    by (simp add: example_state_def example_consts_def next_env_def quiet_env_def
        uart_write_bytes_def wait0_def)
  have c: "(example_state [busy_env])\<lparr>script := tl (script (example_state [busy_env]))\<rparr>
      = example_state []"
    by (simp add: example_state_def)
  from lock_timeout_same_code [of "example_state [busy_env]" example_consts "0x00FF"
      "[0x01, 0x00]" False 3000] a c
    lock_timeout_same_code [of "example_state [quiet_env]" example_consts "0x00FF"
      "[0x01, 0x00]" False 3000] b
  show ?thesis by simp
qed

text \<open>
  The claim as first stated fails: a transaction that cannot get the mutex and one that
  gets no answer return the same value.
\<close>

theorem busy_not_distinct_counterexample:
  "fst (fst (ld2450_send_command example_consts 0x00FF [0x01, 0x00] False 3000
               (example_state [busy_env])))
     = fst (fst (ld2450_send_command example_consts 0x00FF [0x01, 0x00] False 3000
               (example_state [quiet_env])))"
  by code_simp

subsection \<open>The gate\<close>





text \<open>
  Claim C3. Each public operation that works between entering and leaving configuration
  mode obeys \<open>bracket_law\<close>: when entering fails it returns the code of entering and
  leaves the state as entering left it, so its body is not run; when entering succeeds
  and the body fails it returns the code of the body, whatever leaving returns; when both
  succeed it returns the code of leaving. \<open>ld2450_restart_module\<close> follows the first
  two rules (it does not leave configuration mode after a successful restart).
\<close>

theorem bracket_failure_precedence:
  assumes "initialized s"
  shows "bracket_law P (ld2450_set_tracking_mode P mode) (set_tracking_mode_body P mode) s
    \<and> bracket_law P (\<lambda>s. code_of (ld2450_get_tracking_mode P s))
         (\<lambda>s. code_of (get_tracking_mode_body P s)) s
    \<and> bracket_law P (\<lambda>s. code_of (ld2450_get_firmware_version P s))
         (\<lambda>s. code_of (get_firmware_version_body P s)) s
    \<and> (LD2450_BAUD_9600 P \<le> baud_rate \<and> baud_rate \<le> LD2450_BAUD_460800 P \<longrightarrow>
          bracket_law P (ld2450_set_baud_rate P baud_rate) (set_baud_rate_body P baud_rate) s)
    \<and> bracket_law P (ld2450_restore_factory_settings P) (restore_factory_settings_body P) s
    \<and> bracket_law P (ld2450_set_bluetooth P enable) (set_bluetooth_body P enable) s
    \<and> bracket_law P (\<lambda>s. code_of (ld2450_get_mac_address P s))
         (\<lambda>s. code_of (get_mac_address_body P s)) s
    \<and> bracket_law P (ld2450_set_region_filter P ftype regions)
         (set_region_filter_body P ftype regions) s
    \<and> bracket_law P (\<lambda>s. code_of (ld2450_get_region_filter P s))
         (\<lambda>s. code_of (get_region_filter_body P s)) s
    \<and> (fst (ld2450_enter_config_mode P s) \<noteq> ESP_OK \<longrightarrow>
          ld2450_restart_module P s = ld2450_enter_config_mode P s)
    \<and> (fst (ld2450_enter_config_mode P s) = ESP_OK
         \<and> fst (restart_module_body P (snd (ld2450_enter_config_mode P s))) \<noteq> ESP_OK \<longrightarrow>
          fst (ld2450_restart_module P s)
            = fst (restart_module_body P (snd (ld2450_enter_config_mode P s))))"
  using assms bracket_set_tracking_mode [of s P mode] bracket_get_tracking_mode [of s P]
    bracket_get_firmware_version [of s P] bracket_set_baud_rate [of s P baud_rate]
    bracket_restore_factory_settings [of s P] bracket_set_bluetooth [of s P enable]
    bracket_get_mac_address [of s P] bracket_set_region_filter [of s P ftype regions]
    bracket_get_region_filter [of s P] restart_module_cases(1,3) [of s P]
  by simp

theorem bracket_failure_precedence_witness:
  "ld2450_set_tracking_mode example_consts LD2450_MODE_MULTI_TARGET (example_state [busy_env])
      = ld2450_enter_config_mode example_consts (example_state [busy_env])
   \<and> fst (ld2450_enter_config_mode example_consts (example_state [busy_env])) = ESP_ERR_TIMEOUT
   \<and> fst (ld2450_set_tracking_mode example_consts LD2450_MODE_MULTI_TARGET
        (example_state [reads_env [example_ack 0xFF], reads_env [example_ack 0x80],
                        reads_env [example_ack 0xFE]]))
      = ESP_ERR_INVALID_RESPONSE
   \<and> fst (ld2450_set_tracking_mode example_consts LD2450_MODE_MULTI_TARGET
        (example_state [reads_env [example_ack 0xFF], reads_env [example_ack 0x90], quiet_env]))
      = ESP_ERR_TIMEOUT"
proof -
  let ?a = "example_state [busy_env]"
  let ?b = "example_state [reads_env [example_ack 0xFF], reads_env [example_ack 0x80],
                        reads_env [example_ack 0xFE]]"
  let ?c = "example_state [reads_env [example_ack 0xFF], reads_env [example_ack 0x90], quiet_env]"
  let ?body = "set_tracking_mode_body example_consts LD2450_MODE_MULTI_TARGET"
  have i: "initialized (example_state envs)" for envs by (simp add: example_state_def)
  have a1: "fst (ld2450_enter_config_mode example_consts ?a) = ESP_ERR_TIMEOUT" by code_simp
  have b1: "fst (ld2450_enter_config_mode example_consts ?b) = ESP_OK" by code_simp
  have b2: "fst (?body (snd (ld2450_enter_config_mode example_consts ?b)))
              = ESP_ERR_INVALID_RESPONSE" by code_simp
  have c1: "fst (ld2450_enter_config_mode example_consts ?c) = ESP_OK" by code_simp
  have c2: "fst (?body (snd (ld2450_enter_config_mode example_consts ?c))) = ESP_OK" by code_simp
  have c3: "fst (ld2450_exit_config_mode example_consts
                   (snd (?body (snd (ld2450_enter_config_mode example_consts ?c)))))
              = ESP_ERR_TIMEOUT" by code_simp
  have la: "bracket_law example_consts (ld2450_set_tracking_mode example_consts LD2450_MODE_MULTI_TARGET) ?body ?a"
    and lb: "bracket_law example_consts (ld2450_set_tracking_mode example_consts LD2450_MODE_MULTI_TARGET) ?body ?b"
    and lc: "bracket_law example_consts (ld2450_set_tracking_mode example_consts LD2450_MODE_MULTI_TARGET) ?body ?c"
    using bracket_failure_precedence [of ?a example_consts LD2450_MODE_MULTI_TARGET, OF i]
      bracket_failure_precedence [of ?b example_consts LD2450_MODE_MULTI_TARGET, OF i]
      bracket_failure_precedence [of ?c example_consts LD2450_MODE_MULTI_TARGET, OF i]
    by blast+
  show ?thesis
    using la lb lc a1 b1 b2 c1 c2 c3 by (simp add: bracket_law_def Let_def)
qed

subsection \<open>Restarting the module\<close>

lemma exit_runs_transaction:
  assumes "initialized s" "in_config_mode s"
  shows "snd (ld2450_exit_config_mode P s) =
     (let r = ld2450_send_command P (LD2450_CMD_END_CONFIG P) [] False (LD2450_CONFIG_TIMEOUT_MS P) s
      in if fst (fst r) = ESP_OK then (snd r)\<lparr>in_config_mode := False\<rparr> else snd r)"
  using assms by (simp add: ld2450_exit_config_mode_def Let_def split_def)

text \<open>
  Claim C7. Once configuration mode is entered: after a RESTART_MODULE transaction that
  succeeded, \<open>ld2450_restart_module\<close> returns \<open>ESP_OK\<close> having done nothing more than
  the delay of \<open>LD2450_RESTART_TIMEOUT_MS\<close> and the clearing of the flag, so no
  END_CONFIG transaction is run; after one that failed it returns the failure of the
  restart and has called \<open>ld2450_exit_config_mode\<close>, which runs the END_CONFIG
  transaction.
\<close>

theorem restart_module_recovery:
  assumes "initialized s" and "fst (ld2450_enter_config_mode P s) = ESP_OK"
  shows "(let rb = restart_module_body P (snd (ld2450_enter_config_mode P s)); s2 = snd rb in
      (fst rb = ESP_OK \<longrightarrow>
         ld2450_restart_module P s =
           (ESP_OK, s2\<lparr>effects := effects s2
                           @ [Task_delay (pdMS_TO_TICKS P (LD2450_RESTART_TIMEOUT_MS P))],
                       in_config_mode := False\<rparr>))
    \<and> (fst rb \<noteq> ESP_OK \<longrightarrow>
         ld2450_restart_module P s = (fst rb, snd (ld2450_exit_config_mode P s2))
         \<and> snd (ld2450_exit_config_mode P s2) =
             (let r = ld2450_send_command P (LD2450_CMD_END_CONFIG P) [] False
                        (LD2450_CONFIG_TIMEOUT_MS P) s2
              in if fst (fst r) = ESP_OK then (snd r)\<lparr>in_config_mode := False\<rparr> else snd r)))"
proof -
  let ?s1 = "snd (ld2450_enter_config_mode P s)"
  let ?s2 = "snd (restart_module_body P ?s1)"
  have i1: "initialized ?s1" using assms(1) by (simp add: enter_keeps_initialized)
  have c1: "in_config_mode ?s1" using enter_flag [OF assms(1), of P] assms(2) by simp
  have i2: "initialized ?s2" "in_config_mode ?s2"
    using i1 c1 by (simp_all add: restart_body_keeps)
  show ?thesis
    unfolding Let_def
    using restart_module_cases(2,3) [OF assms(1), of P] assms(2)
      exit_runs_transaction [OF i2, of P, unfolded Let_def]
    by simp
qed

theorem restart_module_recovery_witness:
  "fst (ld2450_restart_module example_consts
          (example_state [reads_env [example_ack 0xFF], reads_env [example_ack 0xA3]])) = ESP_OK
   \<and> \<not> in_config_mode (snd (ld2450_restart_module example_consts
          (example_state [reads_env [example_ack 0xFF], reads_env [example_ack 0xA3]])))
   \<and> effects (snd (ld2450_restart_module example_consts
          (example_state [reads_env [example_ack 0xFF], reads_env [example_ack 0xA3]])))
      = [Task_delay 5, Uart_flush, Uart_flush, Queue_drain,
         Uart_write (build_command_packet 0x00FF [0x01, 0x00]),
         Uart_flush, Queue_drain, Uart_write (build_command_packet 0x00A3 []),
         Task_delay 200]
   \<and> fst (ld2450_restart_module example_consts
          (example_state [reads_env [example_ack 0xFF], quiet_env, reads_env [example_ack 0xFE]]))
      = ESP_ERR_TIMEOUT
   \<and> effects (snd (ld2450_restart_module example_consts
          (example_state [reads_env [example_ack 0xFF], quiet_env, reads_env [example_ack 0xFE]])))
      = [Task_delay 5, Uart_flush, Uart_flush, Queue_drain,
         Uart_write (build_command_packet 0x00FF [0x01, 0x00]),
         Uart_flush, Queue_drain, Uart_write (build_command_packet 0x00A3 []),
         Uart_flush, Queue_drain, Uart_write (build_command_packet 0x00FE [])]"
proof -
  let ?a = "example_state [reads_env [example_ack 0xFF], reads_env [example_ack 0xA3]]"
  let ?b = "example_state [reads_env [example_ack 0xFF], quiet_env, reads_env [example_ack 0xFE]]"
  have i: "initialized (example_state envs)" for envs by (simp add: example_state_def)
  have a1: "fst (ld2450_enter_config_mode example_consts ?a) = ESP_OK" by code_simp
  have a2: "fst (restart_module_body example_consts
                   (snd (ld2450_enter_config_mode example_consts ?a))) = ESP_OK" by code_simp
  have a3: "effects (snd (restart_module_body example_consts
                   (snd (ld2450_enter_config_mode example_consts ?a))))
      = [Task_delay 5, Uart_flush, Uart_flush, Queue_drain,
         Uart_write (build_command_packet 0x00FF [0x01, 0x00]),
         Uart_flush, Queue_drain, Uart_write (build_command_packet 0x00A3 [])]" by code_simp
  have t: "pdMS_TO_TICKS example_consts (LD2450_RESTART_TIMEOUT_MS example_consts) = 200"
    by (simp add: example_consts_def)
  have b1: "fst (ld2450_enter_config_mode example_consts ?b) = ESP_OK" by code_simp
  have b2: "fst (restart_module_body example_consts
                   (snd (ld2450_enter_config_mode example_consts ?b))) = ESP_ERR_TIMEOUT"
    by code_simp
  have b3: "effects (snd (ld2450_exit_config_mode example_consts
               (snd (restart_module_body example_consts
                   (snd (ld2450_enter_config_mode example_consts ?b))))))
      = [Task_delay 5, Uart_flush, Uart_flush, Queue_drain,
         Uart_write (build_command_packet 0x00FF [0x01, 0x00]),
         Uart_flush, Queue_drain, Uart_write (build_command_packet 0x00A3 []),
         Uart_flush, Queue_drain, Uart_write (build_command_packet 0x00FE [])]" by code_simp
  have ra: "ld2450_restart_module example_consts ?a =
      (ESP_OK, (snd (restart_module_body example_consts
                   (snd (ld2450_enter_config_mode example_consts ?a))))
         \<lparr>effects := effects (snd (restart_module_body example_consts
                   (snd (ld2450_enter_config_mode example_consts ?a)))) @ [Task_delay 200],
          in_config_mode := False\<rparr>)"
    using restart_module_recovery [of ?a example_consts, OF i a1] a2 t by (simp add: Let_def)
  have rb: "ld2450_restart_module example_consts ?b =
      (ESP_ERR_TIMEOUT, snd (ld2450_exit_config_mode example_consts
               (snd (restart_module_body example_consts
                   (snd (ld2450_enter_config_mode example_consts ?b))))))"
    using restart_module_recovery [of ?b example_consts, OF i b1] b2 by (simp add: Let_def)
  show ?thesis
    unfolding ra rb using a3 b3 by simp
qed

subsection \<open>Reading the firmware version\<close>

lemma example_ack_valid:
  "ld2450_validate_ack (example_ack 0xFF) 0x00FF = Some (ESP_OK, [])"
  "ld2450_validate_ack (example_ack 0xFE) 0x00FE = Some (ESP_OK, [])"
  "ld2450_validate_ack (example_fw_ack m0 m1) 0x00A0 = Some (ESP_OK, [])"
  by (simp_all add: validate_ack_eq example_ack_def example_fw_ack_def
      LD2450_CONFIG_FRAME_HEADER_def LD2450_CONFIG_FRAME_FOOTER_def)

lemma example_ready: "ready example_consts (example_state envs) envs"
  by (simp add: ready_def example_state_def example_consts_def)

lemma example_fw_third_attempt:
  "fst (ld2450_get_firmware_version example_consts
          (example_state [reads_env [example_ack 0xFF], quiet_env, quiet_env,
                          reads_env [example_fw_ack m0 m1], reads_env [example_ack 0xFE]]))
     = (ESP_OK, Some (parse_firmware_version example_consts (example_fw_ack m0 m1)))"
proof -
  have n: "\<not> in_config_mode (example_state envs)" for envs by (simp add: example_state_def)
  have c: "LD2450_CMD_ENABLE_CONFIG example_consts = 0x00FF"
    "LD2450_CMD_END_CONFIG example_consts = 0x00FE"
    "LD2450_CMD_READ_FW_VERSION example_consts = 0x00A0"
    "LD2450_ACK_BUFFER_SIZE example_consts = 64"
    "pdMS_TO_TICKS example_consts (LD2450_CONFIG_TIMEOUT_MS example_consts) = 300"
    "pdMS_TO_TICKS example_consts 1000 = 100"
    by (simp_all add: example_consts_def)
  show ?thesis
    by (rule get_firmware_version_third_attempt [OF example_ready n, where ?lg1.0 = "[]"
          and ?lg2.0 = "[]" and ?lg3.0 = "[]"])
      (simp_all add: c example_ack_valid, simp_all add: example_ack_def example_fw_ack_def)
qed

lemma parse_example_01_02:
  "parse_firmware_version example_consts (example_fw_ack 0x01 0x02)
     = \<lparr>main_version = 0x0201, sub_version = 0x22062416, version_string = ''V2.01.570827798''\<rparr>"
proof -
  have m: "le16 (example_fw_ack 0x01 0x02) 12 = 0x0201"
    by (simp add: le16_def example_fw_ack_def)
  have s: "(ucast (example_fw_ack 0x01 0x02 ! 14) OR push_bit 8 (ucast (example_fw_ack 0x01 0x02 ! 15))
            OR push_bit 16 (ucast (example_fw_ack 0x01 0x02 ! 16))
            OR push_bit 24 (ucast (example_fw_ack 0x01 0x02 ! 17)) :: 32 word) = 0x22062416"
    by (simp add: example_fw_ack_def)
  have f: "format_version 32 0x0201 0x22062416 = ''V2.01.570827798''"
    by (simp add: format_version_def pad0_def dec.simps)
  have v: "VERSION_STRING_SIZE example_consts = 32" by (simp add: example_consts_def)
  show ?thesis
    unfolding parse_firmware_version_def Let_def m s v f by simp
qed


text \<open>
  Claim C8, as amended. The loop of \<open>ld2450_get_firmware_version\<close> runs the
  READ_FW_VERSION transaction up to three times, each with a timeout of 1000 ms, pausing
  200 ms and flushing the input after every attempt that failed; the first attempt that
  returns \<open>ESP_OK\<close> with an acknowledgement of at least 22 bytes ends the loop, and its
  bytes are parsed into the result. When the transport is silent on attempts 1 and 2 and
  delivers a valid acknowledgement on attempt 3, the whole call succeeds with the
  version parsed from it; with main-version bytes 02 01 on the wire (little-endian
  0x0102) and sub-version bytes 16 24 06 22 the main version is 0x0102, the sub-version
  0x22062416 and the version string begins with "V1.02.".
\<close>

theorem firmware_version_retry:
  "fw_attempts P 3 ret s =
     (let a1 = fw_attempt P s in
      if fw_good (fst a1) then fw_parsed P a1
      else
        let a2 = fw_attempt P (fw_backoff P (snd a1)) in
        if fw_good (fst a2) then fw_parsed P a2
        else
          let a3 = fw_attempt P (fw_backoff P (snd a2)) in
          if fw_good (fst a3) then fw_parsed P a3
          else ((fst (fst a3), None), fw_backoff P (snd a3)))
   \<and> (ready P s0 (reads_env [en] # quiet_env # quiet_env # reads_env [fw] # reads_env [ex] # es)
        \<and> \<not> in_config_mode s0
        \<and> length en \<le> LD2450_ACK_BUFFER_SIZE P
        \<and> ld2450_validate_ack en (LD2450_CMD_ENABLE_CONFIG P) = Some (ESP_OK, lg1)
        \<and> 22 \<le> length fw \<and> length fw \<le> LD2450_ACK_BUFFER_SIZE P
        \<and> ld2450_validate_ack fw (LD2450_CMD_READ_FW_VERSION P) = Some (ESP_OK, lg2)
        \<and> length ex \<le> LD2450_ACK_BUFFER_SIZE P
        \<and> ld2450_validate_ack ex (LD2450_CMD_END_CONFIG P) = Some (ESP_OK, lg3)
        \<and> 0 < pdMS_TO_TICKS P (LD2450_CONFIG_TIMEOUT_MS P) \<and> 0 < pdMS_TO_TICKS P 1000 \<longrightarrow>
      fst (ld2450_get_firmware_version P s0) = (ESP_OK, Some (parse_firmware_version P fw)))
   \<and> (fw ! 12 = 0x02 \<and> fw ! 13 = 0x01
        \<and> fw ! 14 = 0x16 \<and> fw ! 15 = 0x24 \<and> fw ! 16 = 0x06 \<and> fw ! 17 = 0x22
        \<and> 7 \<le> VERSION_STRING_SIZE P \<longrightarrow>
      main_version (parse_firmware_version P fw) = 0x0102
      \<and> sub_version (parse_firmware_version P fw) = 0x22062416
      \<and> take 6 (version_string (parse_firmware_version P fw)) = ''V1.02.'')"
  using fw_attempts_3 [of P ret s]
    get_firmware_version_third_attempt [of P s0 en fw ex es lg1 lg2 lg3]
    parse_firmware_version_example [of fw P]
  by blast

theorem firmware_version_retry_witness:
  "fst (ld2450_get_firmware_version example_consts
          (example_state [reads_env [example_ack 0xFF], quiet_env, quiet_env,
                          reads_env [example_fw_ack 0x02 0x01], reads_env [example_ack 0xFE]]))
     = (ESP_OK, Some (parse_firmware_version example_consts (example_fw_ack 0x02 0x01)))
   \<and> main_version (parse_firmware_version example_consts (example_fw_ack 0x02 0x01)) = 0x0102
   \<and> sub_version (parse_firmware_version example_consts (example_fw_ack 0x02 0x01)) = 0x22062416
   \<and> take 6 (version_string (parse_firmware_version example_consts (example_fw_ack 0x02 0x01)))
       = ''V1.02.''
   \<and> LD2450_CONFIG_TIMEOUT_MS example_consts = 3000"
proof -
  let ?s = "example_state [reads_env [example_ack 0xFF], quiet_env, quiet_env,
                          reads_env [example_fw_ack 0x02 0x01], reads_env [example_ack 0xFE]]"
  have c: "LD2450_CMD_ENABLE_CONFIG example_consts = 0x00FF"
    "LD2450_CMD_END_CONFIG example_consts = 0x00FE"
    "LD2450_CMD_READ_FW_VERSION example_consts = 0x00A0"
    "LD2450_ACK_BUFFER_SIZE example_consts = 64"
    "pdMS_TO_TICKS example_consts (LD2450_CONFIG_TIMEOUT_MS example_consts) = 300"
    "pdMS_TO_TICKS example_consts 1000 = 100"
    "VERSION_STRING_SIZE example_consts = 32"
    "LD2450_CONFIG_TIMEOUT_MS example_consts = 3000"
    by (simp_all add: example_consts_def)
  have l: "length (example_ack e) = 14" "length (example_fw_ack m0 m1) = 22" for e m0 m1
    by (simp_all add: example_ack_def example_fw_ack_def)
  have h: "ready example_consts ?s
             (reads_env [example_ack 0xFF] # quiet_env # quiet_env
              # reads_env [example_fw_ack 0x02 0x01] # reads_env [example_ack 0xFE] # [])
        \<and> \<not> in_config_mode ?s
        \<and> length (example_ack 0xFF) \<le> LD2450_ACK_BUFFER_SIZE example_consts
        \<and> ld2450_validate_ack (example_ack 0xFF) (LD2450_CMD_ENABLE_CONFIG example_consts)
            = Some (ESP_OK, [])
        \<and> 22 \<le> length (example_fw_ack 0x02 0x01)
        \<and> length (example_fw_ack 0x02 0x01) \<le> LD2450_ACK_BUFFER_SIZE example_consts
        \<and> ld2450_validate_ack (example_fw_ack 0x02 0x01) (LD2450_CMD_READ_FW_VERSION example_consts)
            = Some (ESP_OK, [])
        \<and> length (example_ack 0xFE) \<le> LD2450_ACK_BUFFER_SIZE example_consts
        \<and> ld2450_validate_ack (example_ack 0xFE) (LD2450_CMD_END_CONFIG example_consts)
            = Some (ESP_OK, [])
        \<and> 0 < pdMS_TO_TICKS example_consts (LD2450_CONFIG_TIMEOUT_MS example_consts)
        \<and> 0 < pdMS_TO_TICKS example_consts 1000"
  proof -
    have n: "\<not> in_config_mode ?s" by (simp add: example_state_def)
    have t: "0 < pdMS_TO_TICKS example_consts (LD2450_CONFIG_TIMEOUT_MS example_consts)"
      "0 < pdMS_TO_TICKS example_consts 1000"
      by (simp_all add: example_consts_def)
    show ?thesis
      using example_ready [of "[reads_env [example_ack 0xFF], quiet_env, quiet_env,
                          reads_env [example_fw_ack 0x02 0x01], reads_env [example_ack 0xFE]]"]
        n t example_ack_valid(1,2) example_ack_valid(3) [of "0x02" "0x01"]
      by (simp add: c(1-4) l)
  qed
  have b: "example_fw_ack 0x02 0x01 ! 12 = 0x02 \<and> example_fw_ack 0x02 0x01 ! 13 = 0x01
        \<and> example_fw_ack 0x02 0x01 ! 14 = 0x16 \<and> example_fw_ack 0x02 0x01 ! 15 = 0x24
        \<and> example_fw_ack 0x02 0x01 ! 16 = 0x06 \<and> example_fw_ack 0x02 0x01 ! 17 = 0x22
        \<and> 7 \<le> VERSION_STRING_SIZE example_consts"
    by (simp add: example_fw_ack_def c)
  note T = firmware_version_retry [of example_consts ESP_OK ?s ?s "example_ack 0xFF"
      "example_fw_ack 0x02 0x01" "example_ack 0xFE" "[]" "[]" "[]" "[]"]
  from T [THEN conjunct2, THEN conjunct1] h T [THEN conjunct2, THEN conjunct2] b c(8)
  show ?thesis by blast
qed

text \<open>
  The claim as first stated fails: with the main-version bytes 01 02 on the wire, in the
  order in which the sub-version bytes 16 24 06 22 are given, the call succeeds with main
  version 0x0201 and a version string that starts "V2.01", not "V1.02".
\<close>

theorem firmware_version_bytes_01_02_counterexample:
  "fst (ld2450_get_firmware_version example_consts
          (example_state [reads_env [example_ack 0xFF], quiet_env, quiet_env,
                          reads_env [example_fw_ack 0x01 0x02], reads_env [example_ack 0xFE]]))
     = (ESP_OK, Some \<lparr>main_version = 0x0201, sub_version = 0x22062416,
                       version_string = ''V2.01.570827798''\<rparr>)
   \<and> take 14 (drop 12 (example_fw_ack 0x01 0x02)) = [0x01, 0x02, 0x16, 0x24, 0x06, 0x22]
        @ LD2450_CONFIG_FRAME_FOOTER @ []
   \<and> ''V2.01.570827798'' \<noteq> ''V1.02''"
proof -
  have "take 14 (drop 12 (example_fw_ack 0x01 0x02)) = [0x01, 0x02, 0x16, 0x24, 0x06, 0x22]
        @ LD2450_CONFIG_FRAME_FOOTER @ []"
    by (simp add: example_fw_ack_def LD2450_CONFIG_FRAME_FOOTER_def)
  moreover have "''V2.01.570827798'' \<noteq> ''V1.02''" by simp
  ultimately show ?thesis
    unfolding example_fw_third_attempt parse_example_01_02 by simp
qed

end
